theory Spec2Isabelle
  imports Main "HOL-Library.Sublist"
begin

section \<open>Go values shared by the model\<close>

text \<open>
  The program is \<^verbatim>\<open>src/main.go\<close> of bandit-dl. Go strings are byte sequences: they are
  modelled as \<^typ>\<open>string\<close>, one \<^typ>\<open>char\<close> per byte. A Go \<^verbatim>\<open>error\<close> value is a
  value of the datatype below; the interface value \<^verbatim>\<open>nil\<close> is \<^term>\<open>None\<close> of
  \<open>error option\<close>.
\<close>

datatype error =
    LibError string
    \<comment> \<open>an error returned by a library call (net/http, html, encoding/json, time, os, id3v2)\<close>
  | ErrorsNew string
    \<comment> \<open>\<^verbatim>\<open>errors.New(msg)\<close>, and \<^verbatim>\<open>fmt.Errorf(msg)\<close> with no verb\<close>
  | Errorf_w string error
    \<comment> \<open>\<^verbatim>\<open>fmt.Errorf("<msg>: %w", err)\<close>: the message prefix and the wrapped error\<close>
  | Errorf_w_s "error option" error
    \<comment> \<open>\<^verbatim>\<open>fmt.Errorf("%w\n%s", err, err2)\<close>: the operand of \<^verbatim>\<open>%w\<close> may be nil\<close>

text \<open>What a call may do: return a value, return an error, or panic.\<close>

datatype 'a outcome = Ok 'a | Failed error | Panic

text \<open>
  An instant of \<^verbatim>\<open>time.Time\<close>, in seconds; the zero value of the Go type is \<open>0\<close>.
\<close>

type_synonym gotime = int

section \<open>The HTML tree and the locator\<close>

text \<open>
  \<^verbatim>\<open>html.Node\<close> of golang.org/x/net/html: the node type, its data (the tag name of an
  element), its attributes in source order, and its children from \<^verbatim>\<open>FirstChild\<close> along
  \<^verbatim>\<open>NextSibling\<close>.
\<close>

datatype NodeType =
  ErrorNode | TextNode | DocumentNode | ElementNode | CommentNode | DoctypeNode | RawNode

record Attribute =
  Namespace :: string
  Key :: string
  Val :: string

datatype Node =
  Node (Type: NodeType) (Data: string) (Attr: "Attribute list") (children: "Node list")

text \<open>
  \<^verbatim>\<open>findElementsWithDataKey\<close> (main.go 272-288). \<^verbatim>\<open>results\<close> starts as the nil slice;
  the first loop appends \<open>n\<close> once for every attribute of \<open>n\<close> whose key is \<open>key\<close> (there is
  no \<^verbatim>\<open>break\<close>), the second loop appends the results of each child in turn.
\<close>

fun findElementsWithDataKey :: "Node \<Rightarrow> string \<Rightarrow> Node list" where
  "findElementsWithDataKey (Node ty d as cs) key =
     (let n = Node ty d as cs;
          results = [];
          results = (if Type n = ElementNode
                     then foldl (\<lambda>results a. if Key a = key then results @ [n] else results)
                            results (Attr n)
                     else results)
      in foldl (\<lambda>results c. results @ findElementsWithDataKey c key) results cs)"

text \<open>\<^verbatim>\<open>getDataValue\<close> (main.go 290-298): the value of the first attribute named \<open>key\<close>.\<close>

fun getDataValue_loop :: "Attribute list \<Rightarrow> string \<Rightarrow> string" where
  "getDataValue_loop [] key = ''''"
| "getDataValue_loop (a # as) key = (if Key a = key then Val a else getDataValue_loop as key)"

definition getDataValue :: "Node \<Rightarrow> string \<Rightarrow> string" where
  "getDataValue n key = getDataValue_loop (Attr n) key"

text \<open>
  The vocabulary of the locator's contract: the nodes of a tree in document order (a node
  before its children, the children left to right), and what it means for an element to
  carry a key.
\<close>

fun preorder :: "Node \<Rightarrow> Node list" where
  "preorder (Node ty d as cs) = Node ty d as cs # concat (map preorder cs)"

definition carries :: "string \<Rightarrow> Node \<Rightarrow> bool" where
  "carries key n = (Type n = ElementNode \<and> key \<in> set (map Key (Attr n)))"

section \<open>The release date\<close>

text \<open>
  The library functions the program calls and whose code is not part of it are parameters
  of the model. \<open>time_Parse layout value\<close> is \<^verbatim>\<open>time.Parse\<close>.
\<close>

definition release_layout :: string where
  "release_layout = ''02 Jan 2006 15:04:05 GMT''"

text \<open>
  \<^verbatim>\<open>timestamp.UnmarshalJSON\<close> (main.go 58-67). The slice expression
  \<^verbatim>\<open>s[1 : len(s)-1]\<close> panics unless \<open>1 \<le> len(s) - 1\<close>; otherwise it drops the first
  and the last byte, whatever they are. The result is the parsed time, which the caller
  stores in the receiver.
\<close>

definition timestamp_UnmarshalJSON ::
  "(string \<Rightarrow> string \<Rightarrow> error + gotime) \<Rightarrow> string \<Rightarrow> gotime outcome" where
  "timestamp_UnmarshalJSON time_Parse b =
     (let s = b;
          lo = (1::int);
          hi = int (length s) - 1
      in if lo \<le> hi \<and> hi \<le> int (length s)
         then (let s = take (nat (hi - lo)) (drop (nat lo) s)
               in case time_Parse release_layout s of
                    Inl err \<Rightarrow> Failed err
                  | Inr tt \<Rightarrow> Ok tt)
         else Panic)"

text \<open>A parser for examples: it accepts one date string only.\<close>

definition time_Parse_example :: "string \<Rightarrow> string \<Rightarrow> error + gotime" where
  "time_Parse_example layout v =
     (if layout = release_layout \<and> v = ''01 Jan 2020 00:00:00 GMT''
      then Inr 63713433600 else Inl (LibError ''parsing time''))"

text \<open>
  An example element: a paragraph whose start tag names the attribute \<open>k\<close> twice, as the
  parser hands it over for \<^verbatim>\<open><p k="1" k="2"></p>\<close>.
\<close>

definition dup_example :: Node where
  "dup_example =
     Node ElementNode ''p''
       [\<lparr>Namespace = '''', Key = ''k'', Val = ''1''\<rparr>,
        \<lparr>Namespace = '''', Key = ''k'', Val = ''2''\<rparr>] []"

section \<open>Strings as UTF-8: what \<^verbatim>\<open>range\<close> and \<^verbatim>\<open>string(rune)\<close> do\<close>

text \<open>
  A rune is an \<^verbatim>\<open>int32\<close> code point. The loop \<^verbatim>\<open>for _, r1 := range s\<close> decodes the
  bytes of \<open>s\<close> as UTF-8, one code point at a time; a byte that starts no valid encoding
  yields \<^verbatim>\<open>0xFFFD\<close> and the loop advances by one byte. The conversion \<^verbatim>\<open>string(r)\<close>
  is the UTF-8 encoding of \<open>r\<close>, and that of \<^verbatim>\<open>0xFFFD\<close> when \<open>r\<close> is no valid code
  point. Both are functions of the Go runtime (\<^verbatim>\<open>decoderune\<close>, \<^verbatim>\<open>encoderune\<close>); masks and
  shifts are written arithmetically: \<^verbatim>\<open>b & 0x3F\<close> is \<open>b mod 64\<close>, \<^verbatim>\<open>x << 6\<close> is
  \<open>x * 64\<close>, \<^verbatim>\<open>r >> 6\<close> is \<open>r div 64\<close>, and \<^verbatim>\<open>|\<close> joins disjoint bit ranges, so it is
  \<open>+\<close>.
\<close>

type_synonym rune = int

definition RuneError :: rune where
  "RuneError = 0xFFFD"

definition cont :: "char \<Rightarrow> bool" where
  "cont c \<longleftrightarrow> (0x80::int) \<le> of_char c \<and> (of_char c :: int) \<le> 0xBF"

text \<open>The rune at the head of a non-empty string, and the number of bytes it takes.\<close>

fun decoderune :: "string \<Rightarrow> rune \<times> nat" where
  "decoderune [] = (RuneError, 1)"
| "decoderune (c0 # cs) =
     (let b0 = (of_char c0 :: int) in
      if b0 < 0x80 then (b0, 1)
      else if 0xC0 \<le> b0 \<and> b0 < 0xE0 then
        (case cs of
           c1 # _ \<Rightarrow>
             if cont c1
             then (let r = (b0 mod 32) * 64 + of_char c1 mod 64
                   in if 0x7F < r then (r, 2) else (RuneError, 1))
             else (RuneError, 1)
         | _ \<Rightarrow> (RuneError, 1))
      else if 0xE0 \<le> b0 \<and> b0 < 0xF0 then
        (case cs of
           c1 # c2 # _ \<Rightarrow>
             if cont c1 \<and> cont c2
             then (let r = (b0 mod 16) * 4096 + (of_char c1 mod 64) * 64 + of_char c2 mod 64
                   in if 0x7FF < r \<and> \<not> (0xD800 \<le> r \<and> r \<le> 0xDFFF) then (r, 3)
                      else (RuneError, 1))
             else (RuneError, 1)
         | _ \<Rightarrow> (RuneError, 1))
      else if 0xF0 \<le> b0 \<and> b0 < 0xF8 then
        (case cs of
           c1 # c2 # c3 # _ \<Rightarrow>
             if cont c1 \<and> cont c2 \<and> cont c3
             then (let r = (b0 mod 8) * 262144 + (of_char c1 mod 64) * 4096
                           + (of_char c2 mod 64) * 64 + of_char c3 mod 64
                   in if 0xFFFF < r \<and> r \<le> 0x10FFFF then (r, 4) else (RuneError, 1))
             else (RuneError, 1)
         | _ \<Rightarrow> (RuneError, 1))
      else (RuneError, 1))"

text \<open>The runes a \<^verbatim>\<open>range\<close> loop over the string visits, in order.\<close>

fun runes :: "string \<Rightarrow> rune list" where
  "runes [] = []"
| "runes (c # cs) = (case decoderune (c # cs) of (r, w) \<Rightarrow> r # runes (drop (w - 1) cs))"

definition encode3 :: "rune \<Rightarrow> string" where
  "encode3 r = [char_of (0xE0 + r div 4096), char_of (0x80 + (r div 64) mod 64),
                char_of (0x80 + r mod 64)]"

definition string_of_rune :: "rune \<Rightarrow> string" where
  "string_of_rune r =
     (if 0 \<le> r \<and> r \<le> 0x7F then [char_of r]
      else if 0 \<le> r \<and> r \<le> 0x7FF then [char_of (0xC0 + r div 64), char_of (0x80 + r mod 64)]
      else if r < 0 \<or> 0x10FFFF < r \<or> (0xD800 \<le> r \<and> r \<le> 0xDFFF) then encode3 RuneError
      else if r \<le> 0xFFFF then encode3 r
      else [char_of (0xF0 + r div 262144), char_of (0x80 + (r div 4096) mod 64),
            char_of (0x80 + (r div 64) mod 64), char_of (0x80 + r mod 64)])"

section \<open>The name sanitizer\<close>

text \<open>
  \<^verbatim>\<open>msStrings\<close> (main.go 301-311): the keys are \<^verbatim>\<open>< > : / \ | ? *\<close>, the values are
  U+FE64, U+FE65, U+02D0, U+2044, U+2216, U+2F01, U+FE56 and U+FE61.
\<close>

definition msStrings :: "rune \<rightharpoonup> rune" where
  "msStrings =
     [0x3C \<mapsto> 0xFE64, 0x3E \<mapsto> 0xFE65, 0x3A \<mapsto> 0x2D0, 0x2F \<mapsto> 0x2044,
      0x5C \<mapsto> 0x2216, 0x7C \<mapsto> 0x2F01, 0x3F \<mapsto> 0xFE56, 0x2A \<mapsto> 0xFE61]"

text \<open>\<^verbatim>\<open>cleanString\<close> (main.go 313-323).\<close>

definition cleanString :: "string \<Rightarrow> string" where
  "cleanString s =
     foldl (\<lambda>out r1. case msStrings r1 of
                        Some r \<Rightarrow> out @ string_of_rune r
                      | None \<Rightarrow> out @ string_of_rune r1)
       [] (runes s)"

text \<open>
  The vocabulary of the sanitizer's contract: the valid code points, and the substitution
  the table stands for.
\<close>

definition valid_rune :: "rune \<Rightarrow> bool" where
  "valid_rune r \<longleftrightarrow> 0 \<le> r \<and> r \<le> 0x10FFFF \<and> \<not> (0xD800 \<le> r \<and> r \<le> 0xDFFF)"

definition substitute :: "rune \<Rightarrow> rune" where
  "substitute r = (case msStrings r of Some r' \<Rightarrow> r' | None \<Rightarrow> r)"

section \<open>The album record and its decoder\<close>

text \<open>
  \<^verbatim>\<open>bandcampTRAlbum\<close> (main.go 69-85). Go's \<^verbatim>\<open>int\<close> fields are integers on which the
  program does no arithmetic; the nested structs \<^verbatim>\<open>Current\<close> and \<^verbatim>\<open>File\<close> are flattened.
\<close>

record track =
  Title :: string
  TrackNum :: int
  Url :: string

record bandcampTRAlbum =
  Artist :: string
  Current_Title :: string
  Current_ArtId :: int
  ItemType :: string
  FreeDownloadPage :: string
  ReleaseDate :: gotime
  Trackinfo :: "track list"

text \<open>
  \<^verbatim>\<open>net/url.URL\<close>: the path, which the program reads and assigns, and everything else.
\<close>

record URL =
  Path :: string
  Rest :: string

text \<open>
  What \<^verbatim>\<open>encoding/json\<close> finds in a text, before the hook of the release date runs:
  a syntax error if the text is not JSON (nothing is decoded then); otherwise the record as
  the decoder fills it, the raw bytes of every value of the key \<^verbatim>\<open>album_release_date\<close> in
  the order they appear, and the earliest type mismatch, which the decoder saves while it
  goes on.
\<close>

record scan =
  syntax_error :: "error option"
  decoded :: bandcampTRAlbum
  release_raw :: "string list"
  type_error :: "error option"

text \<open>
  The pure library functions the program calls: \<^verbatim>\<open>time.Parse\<close>, the year of a time in the
  local zone (\<^verbatim>\<open>t.Local().Format("2006")\<close>), the scan above, \<^verbatim>\<open>url.Parse\<close> and
  \<^verbatim>\<open>URL.String\<close>.
\<close>

record lib =
  time_Parse :: "string \<Rightarrow> string \<Rightarrow> error + gotime"
  year_Local :: "gotime \<Rightarrow> string"
  json_scan :: "string \<Rightarrow> scan"
  url_Parse :: "string \<Rightarrow> error + URL"
  url_String :: "URL \<Rightarrow> string"

text \<open>
  \<^verbatim>\<open>json.Unmarshal\<close> into a \<^verbatim>\<open>bandcampTRAlbum\<close> (main.go 148). The decoder hands the raw
  bytes of each release-date value to \<^verbatim>\<open>timestamp.UnmarshalJSON\<close>; an error of the hook
  ends the decoding at once, a panic of the hook is not recovered, and a saved type
  mismatch is returned when nothing worse happened.
\<close>

fun unmarshal_release ::
  "(string \<Rightarrow> string \<Rightarrow> error + gotime) \<Rightarrow> string list \<Rightarrow> gotime \<Rightarrow> gotime outcome" where
  "unmarshal_release tp [] t = Ok t"
| "unmarshal_release tp (b # bs) t =
     (case timestamp_UnmarshalJSON tp b of
        Ok tt \<Rightarrow> unmarshal_release tp bs tt
      | Failed err \<Rightarrow> Failed err
      | Panic \<Rightarrow> Panic)"

definition json_Unmarshal :: "lib \<Rightarrow> string \<Rightarrow> bandcampTRAlbum outcome" where
  "json_Unmarshal l text =
     (let sc = json_scan l text in
      case syntax_error sc of
        Some err \<Rightarrow> Failed err
      | None \<Rightarrow>
          (case unmarshal_release (time_Parse l) (release_raw sc) 0 of
             Panic \<Rightarrow> Panic
           | Failed err \<Rightarrow> Failed err
           | Ok t \<Rightarrow>
               (case type_error sc of
                  Some err \<Rightarrow> Failed err
                | None \<Rightarrow> Ok ((decoded sc)\<lparr>ReleaseDate := t\<rparr>))))"

section \<open>Formatting\<close>

text \<open>The verbs \<^verbatim>\<open>%d\<close> and \<^verbatim>\<open>%02d\<close> of \<^verbatim>\<open>fmt\<close>, for an integer.\<close>

fun digits :: "nat \<Rightarrow> string" where
  "digits n = (if n < 10 then [char_of (48 + n)] else digits (n div 10) @ [char_of (48 + n mod 10)])"

definition fmt_d :: "int \<Rightarrow> string" where
  "fmt_d i = (if i < 0 then ''-'' @ digits (nat (- i)) else digits (nat i))"

definition fmt_02d :: "int \<Rightarrow> string" where
  "fmt_02d i =
     (if i < 0 then ''-'' @ replicate (1 - length (digits (nat (- i)))) CHR ''0'' @ digits (nat (- i))
      else replicate (2 - length (digits (nat i))) CHR ''0'' @ digits (nat i))"

definition small_art_url :: "int \<Rightarrow> string" where
  "small_art_url art_id = ''https://f4.bcbits.com/img/a'' @ fmt_d art_id @ ''_16.jpg''"

definition large_art_url :: "int \<Rightarrow> string" where
  "large_art_url art_id = ''https://f4.bcbits.com/img/a'' @ fmt_d art_id @ ''_0.jpg''"

definition album_path :: "lib \<Rightarrow> bandcampTRAlbum \<Rightarrow> string" where
  "album_path l tralbum =
     Artist tralbum @ ''/'' @ Current_Title tralbum
       @ '' ('' @ year_Local l (ReleaseDate tralbum) @ '')''"

definition cover_path :: "string \<Rightarrow> string" where
  "cover_path albumPath = albumPath @ ''/cover.jpg''"

definition track_path :: "string \<Rightarrow> track \<Rightarrow> string" where
  "track_path albumPath t =
     albumPath @ ''/'' @ fmt_02d (TrackNum t) @ '' '' @ Title t @ ''.mp3''"

section \<open>Effects\<close>

text \<open>
  What the program does to the world is a trace of events, oldest first: one event for
  every call that reaches the network, the file system, a tag container or standard
  output. A response body is named by the URL it came from, a file and a tag container by
  their path.
\<close>

datatype message =
    Usage
  | Failure error
  | InvalidURL string
  | Thanks
  | FreeDownload string
  | Downloading string string string
  | TrackStart int string
  | TrackDone
  | Newline

record tag =
  tag_Artist :: string
  tag_Album :: string
  tag_Year :: string
  tag_Title :: string
  tag_TRCK :: string
  tag_Picture :: "string option"

datatype event =
    HttpGet string
  | ParseBody string
  | ReadAll string
  | BodyClose string
  | Stat string
  | MkdirAll string
  | Create string
  | Write string string
  | ReadFrom string string
  | FileClose string
  | TagOpen string
  | TagSave string tag
  | TagClose string
  | Print message

text \<open>
  How the world answers: each call that can fail is a function of the trace so far and of
  the call's arguments. For a call that returns only an error, \<^term>\<open>None\<close> is \<^verbatim>\<open>nil\<close>.
  \<open>os_Stat_IsNotExist\<close> is the truth value of \<^verbatim>\<open>os.IsNotExist(err)\<close> after \<^verbatim>\<open>os.Stat\<close>.
\<close>

record world =
  http_Get :: "event list \<Rightarrow> string \<Rightarrow> error option"
  html_Parse :: "event list \<Rightarrow> string \<Rightarrow> error + Node"
  io_ReadAll :: "event list \<Rightarrow> string \<Rightarrow> error + string"
  os_Stat_IsNotExist :: "event list \<Rightarrow> string \<Rightarrow> bool"
  os_MkdirAll :: "event list \<Rightarrow> string \<Rightarrow> error option"
  os_Create :: "event list \<Rightarrow> string \<Rightarrow> error option"
  file_Write :: "event list \<Rightarrow> string \<Rightarrow> string \<Rightarrow> error option"
  file_ReadFrom :: "event list \<Rightarrow> string \<Rightarrow> string \<Rightarrow> error option"
  id3v2_Open :: "event list \<Rightarrow> string \<Rightarrow> error option"
  tag_Save :: "event list \<Rightarrow> string \<Rightarrow> error option"

text \<open>
  A function body returns its result, the trace, and the calls it deferred, latest first.
  When the function returns or panics, the deferred calls run in that order.
\<close>

type_synonym 'a body = "'a \<times> event list \<times> event list"

definition run_deferred :: "'a body \<Rightarrow> 'a \<times> event list" where
  "run_deferred b = (case b of (r, tr, ds) \<Rightarrow> (r, tr @ ds))"

text \<open>
  Fetching and parsing a page: main.go 127-136 in \<^verbatim>\<open>downloadAlbum\<close>, and the same
  statements at 88-97 in \<^verbatim>\<open>downloadAlbums\<close>.
\<close>

definition get_and_parse :: "world \<Rightarrow> string \<Rightarrow> event list \<Rightarrow> (error + Node) body" where
  "get_and_parse w url tr =
     (case http_Get w tr url of
        Some err \<Rightarrow> (Inl err, tr @ [HttpGet url], [])
      | None \<Rightarrow>
          (let tr = tr @ [HttpGet url];
               ds = [BodyClose url]
           in case html_Parse w tr url of
                Inl err \<Rightarrow> (Inl err, tr @ [ParseBody url], ds)
              | Inr doc \<Rightarrow> (Inr doc, tr @ [ParseBody url], ds)))"

text \<open>The sanitizing pass, main.go 152-158.\<close>

definition clean_names :: "bandcampTRAlbum \<Rightarrow> bandcampTRAlbum" where
  "clean_names tralbum =
     tralbum\<lparr>Artist := cleanString (Artist tralbum),
             Current_Title := cleanString (Current_Title tralbum),
             Trackinfo := map (\<lambda>track. track\<lparr>Title := cleanString (Title track)\<rparr>)
                            (Trackinfo tralbum)\<rparr>"

text \<open>
  Fetching the album art, main.go 168-194. The result is \<^verbatim>\<open>artBytes\<close> and
  \<^verbatim>\<open>bigArtBytes\<close>; \<^term>\<open>None\<close> is the nil slice, and \<^verbatim>\<open>io.ReadAll\<close> never returns one.
\<close>

definition fetch_art ::
  "world \<Rightarrow> bandcampTRAlbum \<Rightarrow> event list \<Rightarrow> event list
     \<Rightarrow> (error + string option \<times> string option) body" where
  "fetch_art w tralbum tr ds =
     (if Current_ArtId tralbum \<noteq> 0 then
        (let artUrl = small_art_url (Current_ArtId tralbum) in
         case http_Get w tr artUrl of
           Some err \<Rightarrow>
             (Inl (Errorf_w ''could not fetch album art'' err), tr @ [HttpGet artUrl], ds)
         | None \<Rightarrow>
             (let tr = tr @ [HttpGet artUrl];
                  ds = BodyClose artUrl # ds
              in case io_ReadAll w tr artUrl of
                   Inl err \<Rightarrow>
                     (Inl (ErrorsNew ''could not read album art''), tr @ [ReadAll artUrl], ds)
                 | Inr artBytes \<Rightarrow>
                     (let tr = tr @ [ReadAll artUrl];
                          artUrl = large_art_url (Current_ArtId tralbum)
                      in case http_Get w tr artUrl of
                           Some err \<Rightarrow>
                             (Inl (Errorf_w ''could not fetch large album art'' err),
                              tr @ [HttpGet artUrl], ds)
                         | None \<Rightarrow>
                             (let tr = tr @ [HttpGet artUrl];
                                  ds = BodyClose artUrl # ds
                              in case io_ReadAll w tr artUrl of
                                   Inl err \<Rightarrow>
                                     (Inl (ErrorsNew ''could not read large album art''),
                                      tr @ [ReadAll artUrl], ds)
                                 | Inr bigArtBytes \<Rightarrow>
                                     (Inr (Some artBytes, Some bigArtBytes),
                                      tr @ [ReadAll artUrl], ds)))))
      else (Inr (None, None), tr, ds))"

text \<open>Creating the album directory, main.go 199-203.\<close>

definition make_dir :: "world \<Rightarrow> string \<Rightarrow> event list \<Rightarrow> error option \<times> event list" where
  "make_dir w albumPath tr =
     (let notExist = os_Stat_IsNotExist w tr albumPath;
          tr = tr @ [Stat albumPath]
      in if notExist then
           (case os_MkdirAll w tr albumPath of
              Some err \<Rightarrow>
                (Some (Errorf_w ''could not create album directory'' err),
                 tr @ [MkdirAll albumPath])
            | None \<Rightarrow> (None, tr @ [MkdirAll albumPath]))
         else (None, tr))"

text \<open>
  Saving the large album art, main.go 206-216. \<^verbatim>\<open>f.Close()\<close> is the last statement of
  the block and is not deferred.
\<close>

definition save_cover ::
  "world \<Rightarrow> string \<Rightarrow> string option \<Rightarrow> event list \<Rightarrow> error option \<times> event list" where
  "save_cover w albumPath bigArtBytes tr =
     (case bigArtBytes of
        None \<Rightarrow> (None, tr)
      | Some bytes \<Rightarrow>
          (let artPath = cover_path albumPath in
           case os_Create w tr artPath of
             Some err \<Rightarrow>
               (Some (Errorf_w ''could not create large album art file'' err),
                tr @ [Create artPath])
           | None \<Rightarrow>
               (let tr = tr @ [Create artPath] in
                case file_Write w tr artPath bytes of
                  Some err \<Rightarrow>
                    (Some (Errorf_w ''could not write large album art file'' err),
                     tr @ [Write artPath bytes])
                | None \<Rightarrow> (None, tr @ [Write artPath bytes, FileClose artPath]))))"

text \<open>The tags of a track, main.go 246-261.\<close>

definition track_tag :: "lib \<Rightarrow> bandcampTRAlbum \<Rightarrow> string option \<Rightarrow> track \<Rightarrow> tag" where
  "track_tag l tralbum artBytes t =
     \<lparr>tag_Artist = Artist tralbum,
      tag_Album = Current_Title tralbum,
      tag_Year = year_Local l (ReleaseDate tralbum),
      tag_Title = Title t,
      tag_TRCK = fmt_d (TrackNum t),
      tag_Picture = artBytes\<rparr>"

text \<open>
  The loop over the tracks, main.go 218-267. The response body and the tag container are
  closed by deferred calls; the file is closed by \<^verbatim>\<open>f.Close()\<close> after \<^verbatim>\<open>f.ReadFrom\<close>
  succeeded.
\<close>

fun tracks_loop ::
  "lib \<Rightarrow> world \<Rightarrow> bandcampTRAlbum \<Rightarrow> string \<Rightarrow> string option \<Rightarrow> track list
     \<Rightarrow> event list \<Rightarrow> event list \<Rightarrow> (error option) body" where
  "tracks_loop l w tralbum albumPath artBytes [] tr ds = (None, tr, ds)"
| "tracks_loop l w tralbum albumPath artBytes (t # rest) tr ds =
     (let tr = tr @ [Print (TrackStart (TrackNum t) (Title t))] in
      case http_Get w tr (Url t) of
        Some err \<Rightarrow> (Some (Errorf_w ''could not fetch track'' err), tr @ [HttpGet (Url t)], ds)
      | None \<Rightarrow>
          (let tr = tr @ [HttpGet (Url t)];
               ds = BodyClose (Url t) # ds;
               trackPath = track_path albumPath t
           in case os_Create w tr trackPath of
                Some err \<Rightarrow>
                  (Some (Errorf_w ''could not create track file'' err),
                   tr @ [Create trackPath], ds)
              | None \<Rightarrow>
                  (let tr = tr @ [Create trackPath] in
                   case file_ReadFrom w tr trackPath (Url t) of
                     Some err \<Rightarrow>
                       (Some (Errorf_w ''could not write track file'' err),
                        tr @ [ReadFrom trackPath (Url t)], ds)
                   | None \<Rightarrow>
                       (let tr = tr @ [ReadFrom trackPath (Url t), FileClose trackPath] in
                        case id3v2_Open w tr trackPath of
                          Some err \<Rightarrow>
                            (Some (Errorf_w ''could not open track file'' err),
                             tr @ [TagOpen trackPath], ds)
                        | None \<Rightarrow>
                            (let tr = tr @ [TagOpen trackPath];
                                 ds = TagClose trackPath # ds;
                                 tg = track_tag l tralbum artBytes t
                             in case tag_Save w tr trackPath of
                                  Some err \<Rightarrow>
                                    (Some (Errorf_w ''could not save track file'' err),
                                     tr @ [TagSave trackPath tg], ds)
                                | None \<Rightarrow>
                                    tracks_loop l w tralbum albumPath artBytes rest
                                      (tr @ [TagSave trackPath tg, Print TrackDone]) ds)))))"

section \<open>The program\<close>

text \<open>
  \<^verbatim>\<open>downloadAlbum\<close> from the decoded record on, main.go 160-270: the notice of a free
  download, the art, the directory, the cover file, the tracks.
\<close>

definition materialize ::
  "lib \<Rightarrow> world \<Rightarrow> bandcampTRAlbum \<Rightarrow> event list \<Rightarrow> event list \<Rightarrow> (unit outcome) body" where
  "materialize l w tralbum tr ds =
     (let tr = (if FreeDownloadPage tralbum \<noteq> ''''
                then tr @ [Print (FreeDownload (FreeDownloadPage tralbum))] else tr);
          tr = tr @ [Print (Downloading (Artist tralbum) (Current_Title tralbum)
                              (year_Local l (ReleaseDate tralbum)))]
      in case fetch_art w tralbum tr ds of
           (Inl err, tr, ds) \<Rightarrow> (Failed err, tr, ds)
         | (Inr (artBytes, bigArtBytes), tr, ds) \<Rightarrow>
             (let albumPath = album_path l tralbum in
              case make_dir w albumPath tr of
                (Some err, tr) \<Rightarrow> (Failed err, tr, ds)
              | (None, tr) \<Rightarrow>
                  (case save_cover w albumPath bigArtBytes tr of
                     (Some err, tr) \<Rightarrow> (Failed err, tr, ds)
                   | (None, tr) \<Rightarrow>
                       (case tracks_loop l w tralbum albumPath artBytes (Trackinfo tralbum)
                               tr ds of
                          (Some err, tr, ds) \<Rightarrow> (Failed err, tr, ds)
                        | (None, tr, ds) \<Rightarrow> (Ok (), tr @ [Print Newline], ds)))))"

text \<open>
  \<^verbatim>\<open>downloadAlbum\<close>, main.go 126-270. \<open>safeNames\<close> is the value of the flag. The first
  element of \<^verbatim>\<open>el\<close> is read only after the test \<^verbatim>\<open>el == nil\<close>; the locator returns the nil
  slice exactly when it found nothing.
\<close>

definition downloadAlbum_body ::
  "lib \<Rightarrow> world \<Rightarrow> bool \<Rightarrow> string \<Rightarrow> event list \<Rightarrow> (unit outcome) body" where
  "downloadAlbum_body l w safeNames url tr =
     (case get_and_parse w url tr of
        (Inl err, tr, ds) \<Rightarrow> (Failed err, tr, ds)
      | (Inr doc, tr, ds) \<Rightarrow>
          (case findElementsWithDataKey doc ''data-tralbum'' of
             [] \<Rightarrow> (Failed (ErrorsNew ''could not find album''), tr, ds)
           | el0 # _ \<Rightarrow>
               (let tralbumValue = getDataValue el0 ''data-tralbum'' in
                case json_Unmarshal l tralbumValue of
                  Panic \<Rightarrow> (Panic, tr, ds)
                | Failed err \<Rightarrow> (Failed (Errorf_w ''could not parse album JSON'' err), tr, ds)
                | Ok tralbum \<Rightarrow>
                    materialize l w (if safeNames then clean_names tralbum else tralbum)
                      tr ds)))"

definition downloadAlbum ::
  "lib \<Rightarrow> world \<Rightarrow> bool \<Rightarrow> string \<Rightarrow> event list \<Rightarrow> unit outcome \<times> event list" where
  "downloadAlbum l w safeNames url tr = run_deferred (downloadAlbum_body l w safeNames url tr)"

text \<open>
  \<^verbatim>\<open>downloadAlbums\<close>, main.go 87-124. The inner loops look for the path of the album: the
  \<^verbatim>\<open>href\<close> of the first child that is not a text node, is named \<^verbatim>\<open>a\<close> and gives a
  non-empty path.
\<close>

fun href_loop :: "Attribute list \<Rightarrow> string \<Rightarrow> string" where
  "href_loop [] path = path"
| "href_loop (a # as) path = (if Key a = ''href'' then Val a else href_loop as path)"

fun child_loop :: "Node list \<Rightarrow> string \<Rightarrow> string" where
  "child_loop [] path = path"
| "child_loop (c # cs) path =
     (if Type c = TextNode \<or> Data c \<noteq> ''a'' then child_loop cs path
      else (let path = href_loop (Attr c) path in
            if path \<noteq> '''' then path else child_loop cs path))"

text \<open>
  The loop over the elements. \<open>err\<close> is the named result of \<^verbatim>\<open>downloadAlbums\<close>; it is nil
  when the loop starts, and \<^verbatim>\<open>fmt.Errorf("%w\n%s", err, err2)\<close> wraps it as it is.
\<close>

fun albums_loop ::
  "lib \<Rightarrow> world \<Rightarrow> bool \<Rightarrow> URL \<Rightarrow> Node list \<Rightarrow> error option \<Rightarrow> event list
     \<Rightarrow> (error option) outcome \<times> event list" where
  "albums_loop l w safeNames url [] err tr = (Ok err, tr)"
| "albums_loop l w safeNames url (el # els) err tr =
     (let url = url\<lparr>Path := ''''\<rparr>;
          url = url\<lparr>Path := child_loop (children el) (Path url)\<rparr>
      in if prefix ''/album'' (Path url) then
           (case downloadAlbum l w safeNames (url_String l url) tr of
              (Panic, tr) \<Rightarrow> (Panic, tr)
            | (Ok _, tr) \<Rightarrow> albums_loop l w safeNames url els err tr
            | (Failed err2, tr) \<Rightarrow>
                albums_loop l w safeNames url els (Some (Errorf_w_s err err2)) tr)
         else albums_loop l w safeNames url els err tr)"

definition returned :: "(error option) outcome \<Rightarrow> unit outcome" where
  "returned r = (case r of Ok None \<Rightarrow> Ok () | Ok (Some err) \<Rightarrow> Failed err
                 | Failed err \<Rightarrow> Failed err | Panic \<Rightarrow> Panic)"

definition downloadAlbums_body ::
  "lib \<Rightarrow> world \<Rightarrow> bool \<Rightarrow> URL \<Rightarrow> event list \<Rightarrow> (unit outcome) body" where
  "downloadAlbums_body l w safeNames url tr =
     (case get_and_parse w (url_String l url) tr of
        (Inl err, tr, ds) \<Rightarrow> (Failed err, tr, ds)
      | (Inr doc, tr, ds) \<Rightarrow>
          (let els = findElementsWithDataKey doc ''data-item-id'' in
           case albums_loop l w safeNames url els None tr of
             (r, tr) \<Rightarrow> (returned r, tr, ds)))"

definition downloadAlbums ::
  "lib \<Rightarrow> world \<Rightarrow> bool \<Rightarrow> URL \<Rightarrow> event list \<Rightarrow> unit outcome \<times> event list" where
  "downloadAlbums l w safeNames url tr = run_deferred (downloadAlbums_body l w safeNames url tr)"

text \<open>
  \<^verbatim>\<open>main\<close>, main.go 21-52: the loop over the arguments, and the function around it. A
  panic ends the program; an error is printed and the loop goes on.
\<close>

fun main_loop ::
  "lib \<Rightarrow> world \<Rightarrow> bool \<Rightarrow> string list \<Rightarrow> event list \<Rightarrow> unit outcome \<times> event list" where
  "main_loop l w safeNames [] tr = (Ok (), tr)"
| "main_loop l w safeNames (u # us) tr =
     (case url_Parse l u of
        Inl err \<Rightarrow> main_loop l w safeNames us (tr @ [Print (Failure err)])
      | Inr parsed \<Rightarrow>
          (let parsed = (if Path parsed = ''/'' \<or> Path parsed = ''''
                         then parsed\<lparr>Path := ''/music''\<rparr> else parsed)
           in if Path parsed = ''/music'' \<or> Path parsed = ''/music/'' then
                (case downloadAlbums l w safeNames parsed tr of
                   (Panic, tr) \<Rightarrow> (Panic, tr)
                 | (Failed err, tr) \<Rightarrow> main_loop l w safeNames us (tr @ [Print (Failure err)])
                 | (Ok _, tr) \<Rightarrow> main_loop l w safeNames us tr)
              else if prefix ''/album'' (Path parsed) then
                (case downloadAlbum l w safeNames u tr of
                   (Panic, tr) \<Rightarrow> (Panic, tr)
                 | (Failed err, tr) \<Rightarrow> main_loop l w safeNames us (tr @ [Print (Failure err)])
                 | (Ok _, tr) \<Rightarrow> main_loop l w safeNames us tr)
              else main_loop l w safeNames us (tr @ [Print (InvalidURL u)])))"

definition main ::
  "lib \<Rightarrow> world \<Rightarrow> bool \<Rightarrow> string list \<Rightarrow> event list \<Rightarrow> unit outcome \<times> event list" where
  "main l w safeNames args tr =
     (if length args < 1 then (Ok (), tr @ [Print Usage])
      else (case main_loop l w safeNames args tr of
              (Ok _, tr) \<Rightarrow> (Ok (), tr @ [Print Thanks])
            | (r, tr) \<Rightarrow> (r, tr)))"


fun creates :: "event list \<Rightarrow> string list" where
  "creates [] = []"
| "creates (Create p # es) = p # creates es"
| "creates (e # es) = creates es"


text \<open>The events that change the file system.\<close>

fun fs_write :: "event \<Rightarrow> bool" where
  "fs_write (MkdirAll p) = True"
| "fs_write (Create p) = True"
| "fs_write (Write p b) = True"
| "fs_write (ReadFrom p u) = True"
| "fs_write (TagSave p t) = True"
| "fs_write e = False"



text \<open>
  The vocabulary of the storefront fan-out. The URLs \<^verbatim>\<open>downloadAlbums\<close> hands to
  \<^verbatim>\<open>downloadAlbum\<close>: for each listed element whose link starts with \<open>/album\<close>, the
  storefront URL with that link as its path.
\<close>

definition album_link :: "Node \<Rightarrow> string" where
  "album_link el = child_loop (children el) ''''"

definition album_urls :: "lib \<Rightarrow> URL \<Rightarrow> Node list \<Rightarrow> string list" where
  "album_urls l url els =
     map (\<lambda>el. url_String l (url\<lparr>Path := album_link el\<rparr>))
       (filter (\<lambda>el. prefix ''/album'' (album_link el)) els)"

text \<open>
  Downloading a list of albums one after the other, whatever each download returns: the
  results, and the trace at the end. Only a panic stops it.
\<close>

fun attempts ::
  "lib \<Rightarrow> world \<Rightarrow> bool \<Rightarrow> string list \<Rightarrow> event list \<Rightarrow> (unit outcome) list \<times> event list" where
  "attempts l w safeNames [] tr = ([], tr)"
| "attempts l w safeNames (u # us) tr =
     (case downloadAlbum l w safeNames u tr of
        (Panic, tr1) \<Rightarrow> ([Panic], tr1)
      | (r, tr1) \<Rightarrow>
          (case attempts l w safeNames us tr1 of (rs, tr2) \<Rightarrow> (r # rs, tr2)))"

fun failures :: "(unit outcome) list \<Rightarrow> error list" where
  "failures [] = []"
| "failures (Failed err # rs) = err # failures rs"
| "failures (r # rs) = failures rs"

text \<open>
  The error that chains a list of errors onto a base, oldest innermost: each link is built
  as \<^verbatim>\<open>fmt.Errorf("%w\n%s", err, err2)\<close> builds it.
\<close>

fun chain :: "error option \<Rightarrow> error list \<Rightarrow> error option" where
  "chain base [] = base"
| "chain base (err2 # errs) = chain (Some (Errorf_w_s base err2)) errs"

section \<open>Examples\<close>

text \<open>
  Concrete libraries, pages and worlds on which the model is run. The library knows three
  JSON texts: an album of two tracks listed as number 2, then number 1, without art; an
  album of one track with art; and an object whose release date is the number 5.
\<close>

definition track_one :: track where
  "track_one = \<lparr>Title = ''One'', TrackNum = 1, Url = ''http://x/1.mp3''\<rparr>"

definition track_two :: track where
  "track_two = \<lparr>Title = ''Two'', TrackNum = 2, Url = ''http://x/2.mp3''\<rparr>"

definition album_two_tracks :: bandcampTRAlbum where
  "album_two_tracks =
     \<lparr>Artist = ''A'', Current_Title = ''T'', Current_ArtId = 0, ItemType = '''',
      FreeDownloadPage = '''', ReleaseDate = 0, Trackinfo = [track_two, track_one]\<rparr>"

definition album_with_art :: bandcampTRAlbum where
  "album_with_art =
     \<lparr>Artist = ''A'', Current_Title = ''T'', Current_ArtId = 7, ItemType = '''',
      FreeDownloadPage = '''', ReleaseDate = 0, Trackinfo = [track_one]\<rparr>"

definition album_zero :: bandcampTRAlbum where
  "album_zero =
     \<lparr>Artist = '''', Current_Title = '''', Current_ArtId = 0, ItemType = '''',
      FreeDownloadPage = '''', ReleaseDate = 0, Trackinfo = []\<rparr>"

definition json_two_tracks :: string where
  "json_two_tracks =
     ''{\"artist\":\"A\",\"current\":{\"title\":\"T\",\"art_id\":0},''
     @ ''\"album_release_date\":\"01 Jan 2020 00:00:00 GMT\",\"trackinfo\":[''
     @ ''{\"title\":\"Two\",\"track_num\":2,\"file\":{\"mp3-128\":\"http://x/2.mp3\"}},''
     @ ''{\"title\":\"One\",\"track_num\":1,\"file\":{\"mp3-128\":\"http://x/1.mp3\"}}]}''"

definition json_with_art :: string where
  "json_with_art =
     ''{\"artist\":\"A\",\"current\":{\"title\":\"T\",\"art_id\":7},''
     @ ''\"album_release_date\":\"01 Jan 2020 00:00:00 GMT\",\"trackinfo\":[''
     @ ''{\"title\":\"One\",\"track_num\":1,\"file\":{\"mp3-128\":\"http://x/1.mp3\"}}]}''"

definition json_number_date :: string where
  "json_number_date = ''{\"album_release_date\":5}''"

definition json_scan_example :: "string \<Rightarrow> scan" where
  "json_scan_example text =
     (if text = json_two_tracks then
        \<lparr>syntax_error = None, decoded = album_two_tracks,
         release_raw = [''\"01 Jan 2020 00:00:00 GMT\"''], type_error = None\<rparr>
      else if text = json_with_art then
        \<lparr>syntax_error = None, decoded = album_with_art,
         release_raw = [''\"01 Jan 2020 00:00:00 GMT\"''], type_error = None\<rparr>
      else if text = json_number_date then
        \<lparr>syntax_error = None, decoded = album_zero, release_raw = [''5''],
         type_error = None\<rparr>
      else
        \<lparr>syntax_error = Some (LibError ''invalid character''), decoded = album_zero,
         release_raw = [], type_error = None\<rparr>)"

text \<open>URLs of the examples are \<open>http://x\<close> followed by a path.\<close>

definition lib_example :: lib where
  "lib_example =
     \<lparr>time_Parse = time_Parse_example,
      year_Local = (\<lambda>t. if t = 63713433600 then ''2020'' else ''0001''),
      json_scan = json_scan_example,
      url_Parse = (\<lambda>u. if prefix ''http://x'' u
                          then Inr \<lparr>Path = drop 8 u, Rest = ''http://x''\<rparr>
                          else Inl (LibError ''missing protocol scheme'')),
      url_String = (\<lambda>url. Rest url @ Path url)\<rparr>"

definition album_page :: "string \<Rightarrow> Node" where
  "album_page json =
     Node DocumentNode '''' []
       [Node ElementNode ''div'' [\<lparr>Namespace = '''', Key = ''data-tralbum'', Val = json\<rparr>] []]"

definition empty_page :: Node where
  "empty_page = Node DocumentNode '''' [] [Node ElementNode ''p'' [] []]"

definition item :: "string \<Rightarrow> Node" where
  "item href =
     Node ElementNode ''li'' [\<lparr>Namespace = '''', Key = ''data-item-id'', Val = ''1''\<rparr>]
       [Node TextNode ''album'' [] [],
        Node ElementNode ''a'' [\<lparr>Namespace = '''', Key = ''href'', Val = href\<rparr>] []]"

definition store_page :: Node where
  "store_page = Node DocumentNode '''' [] [item ''/album/none'', item ''/album/two'']"

text \<open>
  A world in which every call succeeds; the page behind a URL is given by \<open>pages\<close>, no
  directory exists yet, and every body read in full is \<open>jpeg\<close>.
\<close>

definition world_example :: "(string \<Rightarrow> Node) \<Rightarrow> world" where
  "world_example pages =
     \<lparr>http_Get = (\<lambda>tr u. None),
      html_Parse = (\<lambda>tr u. Inr (pages u)),
      io_ReadAll = (\<lambda>tr u. Inr ''jpeg''),
      os_Stat_IsNotExist = (\<lambda>tr p. True),
      os_MkdirAll = (\<lambda>tr p. None),
      os_Create = (\<lambda>tr p. None),
      file_Write = (\<lambda>tr p b. None),
      file_ReadFrom = (\<lambda>tr p u. None),
      id3v2_Open = (\<lambda>tr p. None),
      tag_Save = (\<lambda>tr p. None)\<rparr>"

definition pages_example :: "string \<Rightarrow> Node" where
  "pages_example u =
     (if u = ''http://x/music'' then store_page
      else if u = ''http://x/album/two'' then album_page json_two_tracks
      else if u = ''http://x/album/art'' then album_page json_with_art
      else if u = ''http://x/album/five'' then album_page json_number_date
      else empty_page)"

text \<open>The same world with a full disk: writing to a file fails.\<close>

definition world_disk_full :: world where
  "world_disk_full =
     (world_example pages_example)
       \<lparr>file_Write := (\<lambda>tr p b. Some (LibError ''no space left on device'')),
        file_ReadFrom := (\<lambda>tr p u. Some (LibError ''no space left on device''))\<rparr>"



definition store_url :: URL where
  "store_url = \<lparr>Path = ''/music'', Rest = ''http://x''\<rparr>"

section \<open>Properties of the locator\<close>

lemma foldl_snoc_if:
  "foldl (\<lambda>rs a. if P a then rs @ [n] else rs) acc xs
     = acc @ replicate (length (filter P xs)) n"
  by (induction xs arbitrary: acc) (auto simp: replicate_app_Cons_same)

lemma foldl_append_map: "foldl (\<lambda>rs c. rs @ f c) acc cs = acc @ concat (map f cs)"
  by (induction cs arbitrary: acc) auto

lemma named_empty_iff:
  "filter (\<lambda>a. Key a = key) as = [] \<longleftrightarrow> key \<notin> Key ` set as"
  by (induction as) auto

lemma named_distinct:
  "distinct (map Key as) \<Longrightarrow>
     length (filter (\<lambda>a. Key a = key) as) = (if key \<in> Key ` set as then 1 else 0)"
  by (induction as) (auto simp: filter_empty_conv image_iff)

text \<open>
  What the locator computes: the nodes of the tree in document order, each element as
  often as it has attributes named \<open>key\<close>.
\<close>

lemma find_preorder:
  "findElementsWithDataKey t key
     = concat (map (\<lambda>n. if Type n = ElementNode
                           then replicate (length (filter (\<lambda>a. Key a = key) (Attr n))) n
                           else [])
                 (preorder t))"
proof (induction t key rule: findElementsWithDataKey.induct)
  case (1 ty d as cs key)
  have "concat (map (\<lambda>c. findElementsWithDataKey c key) cs)
          = concat (map (\<lambda>n. if Type n = ElementNode
                                then replicate (length (filter (\<lambda>a. Key a = key) (Attr n))) n
                                else [])
                      (concat (map preorder cs)))"
    using 1 by (induction cs) auto
  then show ?case
    by (simp add: foldl_snoc_if foldl_append_map Let_def)
qed

lemma concat_map_empty_iff: "concat (map f xs) = [] \<longleftrightarrow> (\<forall>x \<in> set xs. f x = [])"
  by (induction xs) auto

lemma find_empty_iff:
  "findElementsWithDataKey t key = [] \<longleftrightarrow> (\<forall>n \<in> set (preorder t). \<not> carries key n)"
proof -
  have "(if Type n = ElementNode
         then replicate (length (filter (\<lambda>a. Key a = key) (Attr n))) n else []) = []
        \<longleftrightarrow> \<not> carries key n" for n
    by (simp add: carries_def named_empty_iff)
  then show ?thesis
    by (simp only: find_preorder concat_map_empty_iff)
qed

lemma concat_map_if_filter:
  "concat (map (\<lambda>n. if P n then [n] else []) xs) = filter P xs"
  by (induction xs) auto

text \<open>
  On a tree in which no element names an attribute twice, the locator returns the elements
  that carry the key, once each, in document order.
\<close>

lemma find_distinct_keys:
  assumes "\<forall>n \<in> set (preorder t). distinct (map Key (Attr n))"
  shows "findElementsWithDataKey t key = filter (carries key) (preorder t)"
proof -
  have "map (\<lambda>n. if Type n = ElementNode
                   then replicate (length (filter (\<lambda>a. Key a = key) (Attr n))) n else [])
          (preorder t)
        = map (\<lambda>n. if carries key n then [n] else []) (preorder t)"
    using assms by (auto simp: named_distinct carries_def)
  then have "findElementsWithDataKey t key
               = concat (map (\<lambda>n. if carries key n then [n] else []) (preorder t))"
    by (simp only: find_preorder)
  then show ?thesis
    by (simp only: concat_map_if_filter)
qed

text \<open>
  Claim C3 says that the locator returns the matching elements in document order. The
  attribute loop of the locator has no \<^verbatim>\<open>break\<close>: an element whose start tag names the
  key twice is returned twice, although it is one matching element.
\<close>

theorem findElementsWithDataKey_repeats_element:
  "findElementsWithDataKey dup_example ''k'' = [dup_example, dup_example]
   \<and> filter (carries ''k'') (preorder dup_example) = [dup_example]"
  by (simp add: dup_example_def carries_def Let_def)

section \<open>Properties of the release-date unmarshaler\<close>

lemma take_drop_interior:
  "2 \<le> length b \<Longrightarrow> take (length b - 2) (drop (Suc 0) b) = butlast (tl b)"
  by (cases b) (simp_all add: butlast_conv_take)

text \<open>
  Claim C10. The unmarshaler strips the first and the last byte of the raw JSON value
  without looking at them: whenever the raw value has at least two bytes, what is parsed
  is the raw value without its first and last byte, and the parser's verdict is the
  result. A raw value shorter than two bytes, such as the number \<open>5\<close>, makes the slice
  expression panic; no error is returned.
\<close>

theorem timestamp_UnmarshalJSON_strips_unconditionally:
  "(2 \<le> length b \<longrightarrow>
      timestamp_UnmarshalJSON tp b
        = (case tp release_layout (butlast (tl b)) of
             Inl err \<Rightarrow> Failed err | Inr tt \<Rightarrow> Ok tt))
   \<and> (length b < 2 \<longrightarrow> timestamp_UnmarshalJSON tp b = Panic)
   \<and> timestamp_UnmarshalJSON tp ''5'' = Panic"
proof (intro conjI impI)
  assume len: "2 \<le> length b"
  then have "nat (int (length b) - 1 - 1) = length b - 2"
    by simp
  with len show "timestamp_UnmarshalJSON tp b
        = (case tp release_layout (butlast (tl b)) of
             Inl err \<Rightarrow> Failed err | Inr tt \<Rightarrow> Ok tt)"
    by (simp add: timestamp_UnmarshalJSON_def Let_def take_drop_interior)
next
  assume "length b < 2"
  then show "timestamp_UnmarshalJSON tp b = Panic"
    by (simp add: timestamp_UnmarshalJSON_def Let_def)
next
  show "timestamp_UnmarshalJSON tp ''5'' = Panic"
    by (simp add: timestamp_UnmarshalJSON_def Let_def)
qed

theorem timestamp_UnmarshalJSON_strips_unconditionally_witness:
  "timestamp_UnmarshalJSON time_Parse_example ''<01 Jan 2020 00:00:00 GMT>'' = Ok 63713433600
   \<and> timestamp_UnmarshalJSON time_Parse_example ''12345'' = Failed (LibError ''parsing time'')
   \<and> timestamp_UnmarshalJSON time_Parse_example ''7'' = Panic"
proof -
  have a: "2 \<le> length ''<01 Jan 2020 00:00:00 GMT>''" and b: "2 \<le> length ''12345''"
    and c: "length ''7'' < 2"
    by simp_all
  from timestamp_UnmarshalJSON_strips_unconditionally
         [of "''<01 Jan 2020 00:00:00 GMT>''" time_Parse_example] a
  have 1: "timestamp_UnmarshalJSON time_Parse_example ''<01 Jan 2020 00:00:00 GMT>''
             = Ok 63713433600"
    by (simp add: time_Parse_example_def release_layout_def)
  from timestamp_UnmarshalJSON_strips_unconditionally [of "''12345''" time_Parse_example] b
  have 2: "timestamp_UnmarshalJSON time_Parse_example ''12345''
             = Failed (LibError ''parsing time'')"
    by (simp add: time_Parse_example_def release_layout_def)
  from timestamp_UnmarshalJSON_strips_unconditionally [of "''7''" time_Parse_example] c
  have 3: "timestamp_UnmarshalJSON time_Parse_example ''7'' = Panic"
    by blast
  from 1 2 3 show ?thesis
    by (simp only: simp_thms)
qed

section \<open>Properties of the UTF-8 functions\<close>

lemma decoderune_ascii:
  "(of_char c0 :: int) < 0x80 \<Longrightarrow> decoderune (c0 # cs) = (of_char c0, 1)"
  by (simp add: Let_def)

lemma decoderune_two:
  assumes "0xC0 \<le> (of_char c0 :: int)" "(of_char c0 :: int) < 0xE0" "cont c1"
    and "r = (of_char c0 mod 32) * 64 + of_char c1 mod 64" "0x7F < r"
  shows "decoderune (c0 # c1 # cs) = (r, 2)"
  using assms by (simp add: Let_def)

lemma decoderune_three:
  assumes "0xE0 \<le> (of_char c0 :: int)" "(of_char c0 :: int) < 0xF0" "cont c1" "cont c2"
    and "r = (of_char c0 mod 16) * 4096 + (of_char c1 mod 64) * 64 + of_char c2 mod 64"
    and "0x7FF < r" "\<not> (0xD800 \<le> r \<and> r \<le> 0xDFFF)"
  shows "decoderune (c0 # c1 # c2 # cs) = (r, 3)"
  using assms by (simp add: Let_def)

lemma decoderune_four:
  assumes "0xF0 \<le> (of_char c0 :: int)" "(of_char c0 :: int) < 0xF8" "cont c1" "cont c2" "cont c3"
    and "r = (of_char c0 mod 8) * 262144 + (of_char c1 mod 64) * 4096
             + (of_char c2 mod 64) * 64 + of_char c3 mod 64"
    and "0xFFFF < r" "r \<le> 0x10FFFF"
  shows "decoderune (c0 # c1 # c2 # c3 # cs) = (r, 4)"
  using assms by (simp add: Let_def)

declare decoderune.simps [simp del]

lemma mod_lead: "0 \<le> q \<Longrightarrow> q < k \<Longrightarrow> (b::int) mod k = 0 \<Longrightarrow> (b + q) mod k = q"
  by (metis mod_add_left_eq add_0 mod_pos_pos_trivial)

lemma byte_value: "0 \<le> x \<Longrightarrow> x < 256 \<Longrightarrow> (of_char (char_of (x::int)) :: int) = x"
  by simp

lemma cont_byte: "0 \<le> m \<Longrightarrow> m < 64 \<Longrightarrow> cont (char_of (0x80 + m :: int))"
  by (simp add: cont_def)

lemma cont_byte_val:
  assumes "0 \<le> m" "m < 64"
  shows "(of_char (char_of (0x80 + m :: int)) :: int) mod 64 = m"
proof -
  have "(of_char (char_of (0x80 + m)) :: int) = 0x80 + m"
    using assms by (intro byte_value) auto
  moreover have "(0x80 + m) mod 64 = m"
    using assms by (intro mod_lead) auto
  ultimately show ?thesis by (simp only:)
qed

lemma split3: "(r::int) = (r div 4096) * 4096 + ((r div 64) mod 64) * 64 + r mod 64"
proof -
  have "r div 4096 = (r div 64) div 64"
    using zdiv_zmult2_eq [of 64 r 64] by simp
  then have "(r div 4096) * 64 + (r div 64) mod 64 = r div 64"
    by simp
  then have "((r div 4096) * 64 + (r div 64) mod 64) * 64 + r mod 64 = r"
    by simp
  then show ?thesis
    by (simp add: algebra_simps)
qed

lemma split4:
  "(r::int) = (r div 262144) * 262144 + ((r div 4096) mod 64) * 4096
              + ((r div 64) mod 64) * 64 + r mod 64"
proof -
  have "r div 262144 = (r div 4096) div 64"
    using zdiv_zmult2_eq [of 64 r 4096] by simp
  then have "(r div 262144) * 64 + (r div 4096) mod 64 = r div 4096"
    by simp
  then have "((r div 262144) * 64 + (r div 4096) mod 64) * 4096 = (r div 4096) * 4096"
    by simp
  then have "(r div 262144) * 262144 + ((r div 4096) mod 64) * 4096 = (r div 4096) * 4096"
    by (simp add: algebra_simps)
  with split3 [of r] show ?thesis
    by simp
qed

lemma string_of_rune_ascii: "0 \<le> r \<Longrightarrow> r \<le> 0x7F \<Longrightarrow> string_of_rune r = [char_of r]"
  by (simp add: string_of_rune_def)

lemma string_of_rune_two:
  "0x7F < r \<Longrightarrow> r \<le> 0x7FF
     \<Longrightarrow> string_of_rune r = [char_of (0xC0 + r div 64), char_of (0x80 + r mod 64)]"
  by (simp add: string_of_rune_def)

lemma string_of_rune_three:
  "0x7FF < r \<Longrightarrow> r \<le> 0xFFFF \<Longrightarrow> \<not> (0xD800 \<le> r \<and> r \<le> 0xDFFF)
     \<Longrightarrow> string_of_rune r = encode3 r"
  by (auto simp: string_of_rune_def)

lemma string_of_rune_four:
  "0xFFFF < r \<Longrightarrow> r \<le> 0x10FFFF
     \<Longrightarrow> string_of_rune r =
           [char_of (0xF0 + r div 262144), char_of (0x80 + (r div 4096) mod 64),
            char_of (0x80 + (r div 64) mod 64), char_of (0x80 + r mod 64)]"
  by (simp add: string_of_rune_def)
lemma dec_enc1:
  assumes "0 \<le> r" "r \<le> 0x7F"
  shows "decoderune (string_of_rune r @ bs) = (r, 1)"
proof -
  have "(of_char (char_of r) :: int) = r"
    using assms by (intro byte_value) auto
  then show ?thesis
    using assms decoderune_ascii [of "char_of r" bs] by (simp add: string_of_rune_ascii)
qed

lemma dec_enc2:
  assumes "0x7F < r" "r \<le> 0x7FF"
  shows "decoderune (string_of_rune r @ bs) = (r, 2)"
proof -
  define q where "q = r div 64"
  define m where "m = r mod 64"
  have r: "r = q * 64 + m" by (simp add: q_def m_def)
  have m: "0 \<le> m" "m < 64" by (auto simp: m_def)
  have q: "0 \<le> q" "q < 32" using assms by (auto simp: q_def)
  have b0: "(of_char (char_of (0xC0 + q)) :: int) = 0xC0 + q"
    using q by (intro byte_value) auto
  have q32: "(0xC0 + q) mod 32 = q" using q by (intro mod_lead) auto
  have "decoderune (char_of (0xC0 + q) # char_of (0x80 + m) # bs) = (r, 2)"
  proof (rule decoderune_two)
    show "cont (char_of (0x80 + m))" using m by (rule cont_byte)
    show "r = of_char (char_of (0xC0 + q)) mod 32 * 64 + of_char (char_of (0x80 + m)) mod 64"
      unfolding b0 cont_byte_val [OF m] q32 by (rule r)
    show "0xC0 \<le> (of_char (char_of (0xC0 + q)) :: int)" unfolding b0 using q by simp
    show "(of_char (char_of (0xC0 + q)) :: int) < 0xE0" unfolding b0 using q by simp
    show "0x7F < r" by (rule assms)
  qed
  then show ?thesis
    using assms by (simp add: string_of_rune_two q_def m_def)
qed

lemma dec_enc3:
  assumes "0x7FF < r" "r \<le> 0xFFFF" "\<not> (0xD800 \<le> r \<and> r \<le> 0xDFFF)"
  shows "decoderune (string_of_rune r @ bs) = (r, 3)"
proof -
  define q where "q = r div 4096"
  define m1 where "m1 = (r div 64) mod 64"
  define m2 where "m2 = r mod 64"
  have r: "r = q * 4096 + m1 * 64 + m2"
    unfolding q_def m1_def m2_def by (rule split3)
  have q: "0 \<le> q" "q < 16" using assms by (auto simp: q_def)
  have m1: "0 \<le> m1" "m1 < 64" by (auto simp: m1_def)
  have m2: "0 \<le> m2" "m2 < 64" by (auto simp: m2_def)
  have b0: "(of_char (char_of (0xE0 + q)) :: int) = 0xE0 + q"
    using q by (intro byte_value) auto
  have q16: "(0xE0 + q) mod 16 = q" using q by (intro mod_lead) auto
  have "decoderune (char_of (0xE0 + q) # char_of (0x80 + m1) # char_of (0x80 + m2) # bs)
          = (r, 3)"
  proof (rule decoderune_three)
    show "cont (char_of (0x80 + m1))" using m1 by (rule cont_byte)
    show "cont (char_of (0x80 + m2))" using m2 by (rule cont_byte)
    show "r = of_char (char_of (0xE0 + q)) mod 16 * 4096
              + of_char (char_of (0x80 + m1)) mod 64 * 64
              + of_char (char_of (0x80 + m2)) mod 64"
      unfolding b0 cont_byte_val [OF m1] cont_byte_val [OF m2] q16 by (rule r)
    show "0xE0 \<le> (of_char (char_of (0xE0 + q)) :: int)" unfolding b0 using q by simp
    show "(of_char (char_of (0xE0 + q)) :: int) < 0xF0" unfolding b0 using q by simp
    show "0x7FF < r" by (rule assms)
    show "\<not> (0xD800 \<le> r \<and> r \<le> 0xDFFF)" by (rule assms)
  qed
  then show ?thesis
    using assms by (simp add: string_of_rune_three encode3_def q_def m1_def m2_def)
qed

lemma dec_enc4:
  assumes "0xFFFF < r" "r \<le> 0x10FFFF"
  shows "decoderune (string_of_rune r @ bs) = (r, 4)"
proof -
  define q where "q = r div 262144"
  define m1 where "m1 = (r div 4096) mod 64"
  define m2 where "m2 = (r div 64) mod 64"
  define m3 where "m3 = r mod 64"
  have r: "r = q * 262144 + m1 * 4096 + m2 * 64 + m3"
    unfolding q_def m1_def m2_def m3_def by (rule split4)
  have q: "0 \<le> q" "q < 8" using assms by (auto simp: q_def)
  have m1: "0 \<le> m1" "m1 < 64" by (auto simp: m1_def)
  have m2: "0 \<le> m2" "m2 < 64" by (auto simp: m2_def)
  have m3: "0 \<le> m3" "m3 < 64" by (auto simp: m3_def)
  have b0: "(of_char (char_of (0xF0 + q)) :: int) = 0xF0 + q"
    using q by (intro byte_value) auto
  have q8: "(0xF0 + q) mod 8 = q" using q by (intro mod_lead) auto
  have "decoderune (char_of (0xF0 + q) # char_of (0x80 + m1) # char_of (0x80 + m2)
                     # char_of (0x80 + m3) # bs) = (r, 4)"
  proof (rule decoderune_four)
    show "cont (char_of (0x80 + m1))" using m1 by (rule cont_byte)
    show "cont (char_of (0x80 + m2))" using m2 by (rule cont_byte)
    show "cont (char_of (0x80 + m3))" using m3 by (rule cont_byte)
    show "r = of_char (char_of (0xF0 + q)) mod 8 * 262144
              + of_char (char_of (0x80 + m1)) mod 64 * 4096
              + of_char (char_of (0x80 + m2)) mod 64 * 64
              + of_char (char_of (0x80 + m3)) mod 64"
      unfolding b0 cont_byte_val [OF m1] cont_byte_val [OF m2] cont_byte_val [OF m3] q8
      by (rule r)
    show "0xF0 \<le> (of_char (char_of (0xF0 + q)) :: int)" unfolding b0 using q by simp
    show "(of_char (char_of (0xF0 + q)) :: int) < 0xF8" unfolding b0 using q by simp
    show "0xFFFF < r" by (rule assms)
    show "r \<le> 0x10FFFF" by (rule assms)
  qed
  then show ?thesis
    using assms by (simp add: string_of_rune_four q_def m1_def m2_def m3_def)
qed
lemma RuneError_valid: "valid_rune RuneError"
  by (simp add: valid_rune_def RuneError_def)

lemma string_of_rune_invalid: "\<not> valid_rune r \<Longrightarrow> string_of_rune r = string_of_rune RuneError"
  by (auto simp: string_of_rune_def valid_rune_def RuneError_def)

lemma decoderune_string_of_rune:
  assumes "valid_rune r"
  shows "decoderune (string_of_rune r @ bs) = (r, length (string_of_rune r))"
proof -
  consider "r \<le> 0x7F" | "0x7F < r" "r \<le> 0x7FF" | "0x7FF < r" "r \<le> 0xFFFF" | "0xFFFF < r"
    by linarith
  then show ?thesis
  proof cases
    case 1
    with assms have r: "0 \<le> r" "r \<le> 0x7F" by (simp_all add: valid_rune_def)
    then have "length (string_of_rune r) = 1" by (simp add: string_of_rune_ascii)
    with dec_enc1 [OF r, of bs] show ?thesis by (simp only:)
  next
    case 2
    then have "length (string_of_rune r) = 2" by (simp add: string_of_rune_two)
    with dec_enc2 [OF 2, of bs] show ?thesis by (simp only:)
  next
    case 3
    with assms have s: "\<not> (0xD800 \<le> r \<and> r \<le> 0xDFFF)" by (simp add: valid_rune_def)
    with 3 have "length (string_of_rune r) = 3"
      by (simp add: string_of_rune_three encode3_def)
    with dec_enc3 [OF 3 s, of bs] show ?thesis by (simp only:)
  next
    case 4
    with assms have r: "0xFFFF < r" "r \<le> 0x10FFFF" by (simp_all add: valid_rune_def)
    then have "length (string_of_rune r) = 4" by (simp add: string_of_rune_four)
    with dec_enc4 [OF r, of bs] show ?thesis by (simp only:)
  qed
qed

lemma string_of_rune_not_Nil: "string_of_rune r \<noteq> []"
  by (simp add: string_of_rune_def encode3_def)

lemma runes_string_of_rune:
  assumes "valid_rune r"
  shows "runes (string_of_rune r @ bs) = r # runes bs"
proof -
  obtain c cs where s: "string_of_rune r = c # cs"
    using string_of_rune_not_Nil [of r] by (cases "string_of_rune r") auto
  have "decoderune (c # cs @ bs) = (r, Suc (length cs))"
    using decoderune_string_of_rune [OF assms, of bs] by (simp add: s)
  then show ?thesis
    by (simp add: s)
qed

lemma runes_string_of_rune_any:
  "runes (string_of_rune r @ bs) = (if valid_rune r then r else RuneError) # runes bs"
  using runes_string_of_rune [of r bs] runes_string_of_rune [OF RuneError_valid, of bs]
    string_of_rune_invalid [of r]
  by auto

lemma two_byte_bound: "(b0::int) mod 32 * 64 + b1 mod 64 \<le> 0x7FF"
proof -
  have "b0 mod 32 \<le> 31" "b1 mod 64 \<le> 63" by simp_all
  then show ?thesis by linarith
qed

lemma three_byte_bound: "(b0::int) mod 16 * 4096 + b1 mod 64 * 64 + b2 mod 64 \<le> 0xFFFF"
proof -
  have "b0 mod 16 \<le> 15" "b1 mod 64 \<le> 63" "b2 mod 64 \<le> 63" by simp_all
  then show ?thesis by linarith
qed

lemma byte_nonneg: "0 \<le> (of_char c :: int)"
  by (metis of_nat_of_char of_nat_0_le_iff)

lemma decoderune_valid: "valid_rune (fst (decoderune s))"
proof (cases s)
  case Nil
  then show ?thesis by (simp add: RuneError_valid decoderune.simps)
next
  case (Cons c0 cs)
  have v1: "r < 0x80 \<Longrightarrow> 0 \<le> r \<Longrightarrow> valid_rune r" for r
    by (simp add: valid_rune_def)
  have v2: "0x7F < r \<Longrightarrow> r \<le> 0x7FF \<Longrightarrow> valid_rune r" for r
    by (simp add: valid_rune_def)
  have v3: "0x7FF < r \<Longrightarrow> r \<le> 0xFFFF \<Longrightarrow> \<not> (0xD800 \<le> r \<and> r \<le> 0xDFFF) \<Longrightarrow> valid_rune r" for r
    by (simp add: valid_rune_def)
  have v4: "0xFFFF < r \<Longrightarrow> r \<le> 0x10FFFF \<Longrightarrow> valid_rune r" for r
    by (simp add: valid_rune_def)
  define b0 where "b0 = (of_char c0 :: int)"
  have b0: "0 \<le> b0" by (simp add: b0_def byte_nonneg)
  consider "b0 < 0x80" | "0x80 \<le> b0" "b0 < 0xC0" | "0xC0 \<le> b0" "b0 < 0xE0"
    | "0xE0 \<le> b0" "b0 < 0xF0" | "0xF0 \<le> b0" "b0 < 0xF8" | "0xF8 \<le> b0"
    by linarith
  then show ?thesis
  proof cases
    case 1
    then show ?thesis
      using b0 by (simp add: Cons decoderune.simps b0_def [symmetric] v1)
  next
    case 2
    then show ?thesis
      by (simp add: Cons decoderune.simps b0_def [symmetric] RuneError_valid)
  next
    case 3
    then show ?thesis
      by (simp add: Cons decoderune.simps b0_def [symmetric] Let_def RuneError_valid v2
          two_byte_bound split: list.splits)
  next
    case 4
    then show ?thesis
      by (simp add: Cons decoderune.simps b0_def [symmetric] Let_def RuneError_valid v3
          three_byte_bound split: list.splits)
  next
    case 5
    then show ?thesis
      by (simp add: Cons decoderune.simps b0_def [symmetric] Let_def RuneError_valid v4
          split: list.splits)
  next
    case 6
    then show ?thesis
      by (simp add: Cons decoderune.simps b0_def [symmetric] RuneError_valid)
  qed
qed

lemma runes_valid: "\<forall>r \<in> set (runes s). valid_rune r"
proof (induction s rule: runes.induct)
  case 1
  then show ?case by simp
next
  case (2 c cs)
  obtain r w where d: "decoderune (c # cs) = (r, w)"
    by (cases "decoderune (c # cs)")
  have "valid_rune r"
    using decoderune_valid [of "c # cs"] by (simp add: d)
  with 2 [OF d [symmetric]] show ?case
    by (simp add: d)
qed

lemma runes_concat:
  "\<forall>r \<in> set rs. valid_rune r \<Longrightarrow> runes (concat (map string_of_rune rs)) = rs"
  by (induction rs) (simp_all add: runes_string_of_rune)
section \<open>Properties of the name sanitizer\<close>

lemma msStrings_Some:
  "msStrings r = Some r' \<Longrightarrow> valid_rune r' \<and> msStrings r' = None"
  by (auto simp: msStrings_def valid_rune_def split: if_splits)

lemma substitute_valid: "valid_rune r \<Longrightarrow> valid_rune (substitute r)"
  by (auto simp: substitute_def dest: msStrings_Some split: option.splits)

lemma substitute_idem: "substitute (substitute r) = substitute r"
  by (auto simp: substitute_def dest: msStrings_Some split: option.splits)

lemma substitute_table:
  "substitute r =
     (if r = 0x2A then 0xFE61 else if r = 0x3F then 0xFE56 else if r = 0x7C then 0x2F01
      else if r = 0x5C then 0x2216 else if r = 0x2F then 0x2044 else if r = 0x3A then 0x2D0
      else if r = 0x3E then 0xFE65 else if r = 0x3C then 0xFE64 else r)"
  by (simp add: substitute_def msStrings_def)

lemma cleanString_fold:
  "foldl (\<lambda>out r1. case msStrings r1 of
                      Some r \<Rightarrow> out @ string_of_rune r
                    | None \<Rightarrow> out @ string_of_rune r1) acc rs
     = acc @ concat (map (\<lambda>r. string_of_rune (substitute r)) rs)"
  by (induction rs arbitrary: acc) (auto simp: substitute_def split: option.splits)

lemma cleanString_concat:
  "cleanString s = concat (map string_of_rune (map substitute (runes s)))"
  by (simp add: cleanString_def cleanString_fold comp_def)

lemma runes_cleanString: "runes (cleanString s) = map substitute (runes s)"
proof -
  have "\<forall>r \<in> set (map substitute (runes s)). valid_rune r"
    using runes_valid [of s] by (auto intro: substitute_valid)
  then show ?thesis
    unfolding cleanString_concat by (rule runes_concat)
qed

text \<open>
  Claim C2. The sanitizer is a total function (its definition is a terminating recursion
  over the bytes of its argument, for every byte string, valid UTF-8 or not). It is
  idempotent, and it keeps the number of code points a \<^verbatim>\<open>range\<close> loop counts in the string.
\<close>

theorem cleanString_idempotent_length:
  "cleanString (cleanString s) = cleanString s
   \<and> length (runes (cleanString s)) = length (runes s)"
proof
  have twice: "map substitute (map substitute (runes s)) = map substitute (runes s)"
    by (simp add: substitute_idem)
  have "cleanString (cleanString s)
          = concat (map string_of_rune (map substitute (runes (cleanString s))))"
    by (rule cleanString_concat)
  also have "\<dots> = concat (map string_of_rune (map substitute (map substitute (runes s))))"
    by (simp only: runes_cleanString)
  also have "\<dots> = concat (map string_of_rune (map substitute (runes s)))"
    by (simp only: twice)
  also have "\<dots> = cleanString s"
    by (simp only: cleanString_concat)
  finally show "cleanString (cleanString s) = cleanString s" .
  show "length (runes (cleanString s)) = length (runes s)"
    by (simp add: runes_cleanString)
qed

lemma cleanString_example:
  "cleanString ''A/B:C''
     = [CHR ''A'', CHR 0xE2, CHR 0x81, CHR 0x84, CHR ''B'', CHR 0xCB, CHR 0x90, CHR ''C'']"
  by code_simp

lemma runes_example: "runes ''A/B:C'' = [0x41, 0x2F, 0x42, 0x3A, 0x43]"
  by code_simp

text \<open>
  Claim C7, as stated, gives the sanitized form of \<open>A/B:C\<close> as the six code points
  A, U+2044, B, U+02D0, space, C. The sanitizer returns five code points: there is no
  space after U+02D0.
\<close>

theorem cleanString_example_has_no_space:
  "cleanString ''A/B:C''
     \<noteq> [CHR ''A'', CHR 0xE2, CHR 0x81, CHR 0x84, CHR ''B'', CHR 0xCB, CHR 0x90, CHR '' '',
         CHR ''C'']"
  by (simp add: cleanString_example)

text \<open>
  Claim C7, amended. The code points of the sanitized string are those of the input, in
  order, each passed through the table: the eight keys \<^verbatim>\<open>* ? | \ / : > <\<close> go to U+FE61,
  U+FE56, U+2F01, U+2216, U+2044, U+02D0, U+FE65 and U+FE64, one code point each, and
  every other code point stays as it is. The title \<open>A/B:C\<close> becomes the five code points
  A, U+2044, B, U+02D0, C.
\<close>

theorem cleanString_substitutes_table:
  "runes (cleanString s) = map substitute (runes s)
   \<and> substitute r =
       (if r = 0x2A then 0xFE61 else if r = 0x3F then 0xFE56 else if r = 0x7C then 0x2F01
        else if r = 0x5C then 0x2216 else if r = 0x2F then 0x2044 else if r = 0x3A then 0x2D0
        else if r = 0x3E then 0xFE65 else if r = 0x3C then 0xFE64 else r)
   \<and> dom msStrings = {0x3C, 0x3E, 0x3A, 0x2F, 0x5C, 0x7C, 0x3F, 0x2A}
   \<and> runes (cleanString ''A/B:C'') = [0x41, 0x2044, 0x42, 0x2D0, 0x43]"
proof (intro conjI)
  show "runes (cleanString s) = map substitute (runes s)"
    by (rule runes_cleanString)
  show "substitute r =
       (if r = 0x2A then 0xFE61 else if r = 0x3F then 0xFE56 else if r = 0x7C then 0x2F01
        else if r = 0x5C then 0x2216 else if r = 0x2F then 0x2044 else if r = 0x3A then 0x2D0
        else if r = 0x3E then 0xFE65 else if r = 0x3C then 0xFE64 else r)"
    by (rule substitute_table)
  show "dom msStrings = {0x3C, 0x3E, 0x3A, 0x2F, 0x5C, 0x7C, 0x3F, 0x2A}"
    by (auto simp: msStrings_def)
  show "runes (cleanString ''A/B:C'') = [0x41, 0x2044, 0x42, 0x2D0, 0x43]"
    unfolding runes_cleanString runes_example by (simp add: substitute_table)
qed

section \<open>Properties of \<^verbatim>\<open>downloadAlbum\<close>: the steps before the record is used\<close>

lemma get_and_parse_ok:
  assumes "http_Get w tr url = None" and "html_Parse w (tr @ [HttpGet url]) url = Inr doc"
  shows "get_and_parse w url tr = (Inr doc, tr @ [HttpGet url, ParseBody url], [BodyClose url])"
  using assms by (simp add: get_and_parse_def)

lemma unmarshal_release_short:
  "length b < 2 \<Longrightarrow> unmarshal_release tp (b # bs) t = Panic"
  by (simp add: timestamp_UnmarshalJSON_def Let_def)

lemma json_Unmarshal_short_date:
  assumes "syntax_error (json_scan l text) = None"
    and "release_raw (json_scan l text) = b # bs" and "length b < 2"
  shows "json_Unmarshal l text = Panic"
  using assms unmarshal_release_short [of b "time_Parse l" bs 0]
  by (simp add: json_Unmarshal_def Let_def del: unmarshal_release.simps)

lemma downloadAlbum_decode_failed:
  assumes "http_Get w tr url = None" and "html_Parse w (tr @ [HttpGet url]) url = Inr doc"
    and "findElementsWithDataKey doc ''data-tralbum'' = el0 # els"
    and "json_Unmarshal l (getDataValue el0 ''data-tralbum'') = Failed err"
  shows "downloadAlbum l w safeNames url tr
           = (Failed (Errorf_w ''could not parse album JSON'' err),
              tr @ [HttpGet url, ParseBody url, BodyClose url])"
  using assms
  by (simp add: downloadAlbum_def downloadAlbum_body_def get_and_parse_ok run_deferred_def)

lemma downloadAlbum_decode_panic:
  assumes "http_Get w tr url = None" and "html_Parse w (tr @ [HttpGet url]) url = Inr doc"
    and "findElementsWithDataKey doc ''data-tralbum'' = el0 # els"
    and "json_Unmarshal l (getDataValue el0 ''data-tralbum'') = Panic"
  shows "downloadAlbum l w safeNames url tr
           = (Panic, tr @ [HttpGet url, ParseBody url, BodyClose url])"
  using assms
  by (simp add: downloadAlbum_def downloadAlbum_body_def get_and_parse_ok run_deferred_def)


lemma downloadAlbum_not_found:
  assumes "http_Get w tr u = None" and "html_Parse w (tr @ [HttpGet u]) u = Inr doc"
    and "\<forall>n \<in> set (preorder doc). \<not> carries ''data-tralbum'' n"
  shows "downloadAlbum l w safeNames u tr
           = (Failed (ErrorsNew ''could not find album''),
              tr @ [HttpGet u, ParseBody u, BodyClose u])"
proof -
  have "findElementsWithDataKey doc ''data-tralbum'' = []"
    using assms(3) by (simp add: find_empty_iff)
  then show ?thesis
    using assms(1,2)
    by (simp add: downloadAlbum_def downloadAlbum_body_def get_and_parse_ok run_deferred_def)
qed

lemma album_path_not_music:
  assumes "prefix ''/album'' p"
  shows "p \<noteq> ''/'' \<and> p \<noteq> '''' \<and> p \<noteq> ''/music'' \<and> p \<noteq> ''/music/''"
proof -
  from assms obtain zs where "p = ''/album'' @ zs"
    by (auto simp: prefix_def)
  then show ?thesis by simp
qed

lemma main_loop_album_failed:
  assumes "url_Parse l u = Inr p" and "prefix ''/album'' (Path p)"
    and "downloadAlbum l w safeNames u tr = (Failed err, tr')"
  shows "main_loop l w safeNames (u # us) tr
           = main_loop l w safeNames us (tr' @ [Print (Failure err)])"
  using assms album_path_not_music [OF assms(2)] by simp

text \<open>
  Claim C6. When the page is fetched and parsed and no element of the document carries
  \<open>data-tralbum\<close>, \<^verbatim>\<open>downloadAlbum\<close> returns the error "could not find album" (it does not
  panic); all it did is fetch the page, parse it and close the response body, so the
  file system is not touched. \<^verbatim>\<open>main\<close>, called with that URL first, prints the error and
  goes on with the remaining arguments.
\<close>

theorem downloadAlbum_missing_tralbum:
  assumes "http_Get w tr u = None" and "html_Parse w (tr @ [HttpGet u]) u = Inr doc"
    and "\<forall>n \<in> set (preorder doc). \<not> carries ''data-tralbum'' n"
  shows "downloadAlbum l w safeNames u tr
           = (Failed (ErrorsNew ''could not find album''),
              tr @ [HttpGet u, ParseBody u, BodyClose u])
         \<and> filter fs_write (snd (downloadAlbum l w safeNames u tr)) = filter fs_write tr
         \<and> (\<forall>p us. url_Parse l u = Inr p \<and> prefix ''/album'' (Path p) \<longrightarrow>
               main_loop l w safeNames (u # us) tr
                 = main_loop l w safeNames us
                     (tr @ [HttpGet u, ParseBody u, BodyClose u,
                            Print (Failure (ErrorsNew ''could not find album''))]))"
proof -
  note nf = downloadAlbum_not_found [OF assms, of l safeNames]
  have "main_loop l w safeNames (u # us) tr
          = main_loop l w safeNames us
              (tr @ [HttpGet u, ParseBody u, BodyClose u,
                     Print (Failure (ErrorsNew ''could not find album''))])"
    if "url_Parse l u = Inr p" "prefix ''/album'' (Path p)" for p us
    using main_loop_album_failed [OF that nf, of us] by simp
  with nf show ?thesis
    by simp
qed

section \<open>Properties of \<^verbatim>\<open>downloadAlbum\<close>: art, directory, cover and tracks\<close>


















lemma fetch_art_extends:
  "fetch_art w tralbum tr ds = (r, tr', ds') \<Longrightarrow> \<exists>es. tr' = tr @ es"
  by (auto simp: fetch_art_def Let_def split: if_splits option.splits sum.splits)

lemma make_dir_extends: "make_dir w albumPath tr = (r, tr') \<Longrightarrow> \<exists>es. tr' = tr @ es"
  by (auto simp: make_dir_def Let_def split: if_splits option.splits)

lemma save_cover_extends:
  "save_cover w albumPath bigArtBytes tr = (r, tr') \<Longrightarrow> \<exists>es. tr' = tr @ es"
  by (auto simp: save_cover_def Let_def split: option.splits)

lemma tracks_loop_extends:
  "tracks_loop l w tralbum albumPath artBytes ts tr ds = (r, tr', ds')
     \<Longrightarrow> \<exists>es. tr' = tr @ es"
proof (induction ts arbitrary: tr ds)
  case Nil
  then show ?case by simp
next
  case (Cons t rest)
  from Cons.prems Cons.IH show ?case
    by (fastforce simp: Let_def split: option.splits)
qed

lemma materialize_extends:
  assumes "materialize l w tralbum tr ds = (r, tr', ds')"
  shows "\<exists>es. tr' = tr @ es"
proof -
  define tr0 where
    "tr0 = (if FreeDownloadPage tralbum \<noteq> ''''
            then tr @ [Print (FreeDownload (FreeDownloadPage tralbum))] else tr)
           @ [Print (Downloading (Artist tralbum) (Current_Title tralbum)
                       (year_Local l (ReleaseDate tralbum)))]"
  have e0: "\<exists>es. tr0 = tr @ es"
    by (simp add: tr0_def)
  obtain ra tr1 ds1 where fa: "fetch_art w tralbum tr0 ds = (ra, tr1, ds1)"
    by (cases "fetch_art w tralbum tr0 ds") auto
  from fetch_art_extends [OF fa] e0 have e1: "\<exists>es. tr1 = tr @ es"
    by auto
  show ?thesis
  proof (cases ra)
    case (Inl err)
    with assms fa e1 show ?thesis
      by (simp add: materialize_def tr0_def Let_def)
  next
    case (Inr bytes)
    obtain artBytes bigArtBytes where bytes: "bytes = (artBytes, bigArtBytes)"
      by (cases bytes)
    obtain rd tr2 where md: "make_dir w (album_path l tralbum) tr1 = (rd, tr2)"
      by (cases "make_dir w (album_path l tralbum) tr1")
    from make_dir_extends [OF md] e1 have e2: "\<exists>es. tr2 = tr @ es"
      by auto
    obtain rc tr3 where sc: "save_cover w (album_path l tralbum) bigArtBytes tr2 = (rc, tr3)"
      by (cases "save_cover w (album_path l tralbum) bigArtBytes tr2")
    from save_cover_extends [OF sc] e2 have e3: "\<exists>es. tr3 = tr @ es"
      by auto
    obtain rt tr4 ds4
      where tl: "tracks_loop l w tralbum (album_path l tralbum) artBytes (Trackinfo tralbum)
                   tr3 ds1 = (rt, tr4, ds4)"
      by (cases "tracks_loop l w tralbum (album_path l tralbum) artBytes (Trackinfo tralbum)
                   tr3 ds1") auto
    from tracks_loop_extends [OF tl] e3 have e4: "\<exists>es. tr4 = tr @ es"
      by auto
    from assms fa md sc tl Inr bytes e2 e3 e4 show ?thesis
      by (auto simp: materialize_def tr0_def Let_def split: option.splits)
  qed
qed








section \<open>Properties of \<^verbatim>\<open>downloadAlbums\<close>\<close>

text \<open>Whatever \<^verbatim>\<open>downloadAlbum\<close> returns, the first thing it did was to fetch its URL.\<close>

lemma downloadAlbum_fetches_first:
  assumes "downloadAlbum l w safeNames u tr = (r, tr')"
  shows "\<exists>es. tr' = tr @ HttpGet u # es"
proof -
  obtain rg tr1 ds1 where gp: "get_and_parse w u tr = (rg, tr1, ds1)"
    by (cases "get_and_parse w u tr") auto
  then have e1: "\<exists>es. tr1 = tr @ HttpGet u # es"
    by (auto simp: get_and_parse_def Let_def split: option.splits sum.splits)
  show ?thesis
  proof (cases rg)
    case (Inl err)
    with assms gp e1 show ?thesis
      by (auto simp: downloadAlbum_def downloadAlbum_body_def run_deferred_def)
  next
    case (Inr doc)
    show ?thesis
    proof (cases "findElementsWithDataKey doc ''data-tralbum''")
      case Nil
      with assms gp e1 Inr show ?thesis
        by (auto simp: downloadAlbum_def downloadAlbum_body_def run_deferred_def)
    next
      case (Cons el0 els)
      show ?thesis
      proof (cases "json_Unmarshal l (getDataValue el0 ''data-tralbum'')")
        case (Ok tralbum)
        obtain rm tr2 ds2
          where m: "materialize l w (if safeNames then clean_names tralbum else tralbum)
                      tr1 ds1 = (rm, tr2, ds2)"
          by (cases "materialize l w (if safeNames then clean_names tralbum else tralbum)
                      tr1 ds1") auto
        from materialize_extends [OF m] e1 have "\<exists>es. tr2 = tr @ HttpGet u # es"
          by auto
        with assms gp Inr Cons Ok m show ?thesis
          by (auto simp: downloadAlbum_def downloadAlbum_body_def run_deferred_def Let_def)
      next
        case (Failed err)
        with assms gp e1 Inr Cons show ?thesis
          by (auto simp: downloadAlbum_def downloadAlbum_body_def run_deferred_def Let_def)
      next
        case Panic
        with assms gp e1 Inr Cons show ?thesis
          by (auto simp: downloadAlbum_def downloadAlbum_body_def run_deferred_def Let_def)
      qed
    qed
  qed
qed

lemma attempts_extends: "attempts l w safeNames us tr = (rs, tr') \<Longrightarrow> \<exists>es. tr' = tr @ es"
proof (induction us arbitrary: tr rs tr')
  case Nil
  then show ?case by simp
next
  case (Cons u us)
  obtain r tr1 where d: "downloadAlbum l w safeNames u tr = (r, tr1)"
    by (cases "downloadAlbum l w safeNames u tr")
  from downloadAlbum_fetches_first [OF d] obtain es1 where e1: "tr1 = tr @ HttpGet u # es1"
    by blast
  show ?case
  proof (cases "r = Panic")
    case True
    with Cons.prems d e1 show ?thesis by auto
  next
    case False
    obtain rs2 tr2 where a: "attempts l w safeNames us tr1 = (rs2, tr2)"
      by (cases "attempts l w safeNames us tr1")
    from Cons.IH [OF a] obtain es2 where "tr2 = tr1 @ es2"
      by blast
    with Cons.prems d a e1 False show ?thesis
      by (cases r) auto
  qed
qed

lemma attempts_complete:
  "attempts l w safeNames us tr = (rs, tr') \<Longrightarrow> Panic \<notin> set rs
     \<Longrightarrow> length rs = length us \<and> (\<forall>u \<in> set us. HttpGet u \<in> set tr')"
proof (induction us arbitrary: tr rs tr')
  case Nil
  then show ?case by simp
next
  case (Cons u us)
  obtain r tr1 where d: "downloadAlbum l w safeNames u tr = (r, tr1)"
    by (cases "downloadAlbum l w safeNames u tr")
  from downloadAlbum_fetches_first [OF d] obtain es1 where e1: "tr1 = tr @ HttpGet u # es1"
    by blast
  obtain rs2 tr2 where a: "attempts l w safeNames us tr1 = (rs2, tr2)"
    by (cases "attempts l w safeNames us tr1")
  from attempts_extends [OF a] obtain es2 where e2: "tr2 = tr1 @ es2"
    by blast
  from Cons.prems d a have r: "r \<noteq> Panic" "rs = r # rs2" "tr' = tr2"
    by (cases r; auto)+
  with Cons.prems have "Panic \<notin> set rs2"
    by simp
  from Cons.IH [OF a this] r e1 e2 show ?case
    by auto
qed

lemma albums_loop_step:
  "albums_loop l w safeNames url (el # els) err tr =
     (if prefix ''/album'' (album_link el) then
        (case downloadAlbum l w safeNames (url_String l (url\<lparr>Path := album_link el\<rparr>)) tr of
           (Panic, tr) \<Rightarrow> (Panic, tr)
         | (Ok _, tr) \<Rightarrow> albums_loop l w safeNames (url\<lparr>Path := album_link el\<rparr>) els err tr
         | (Failed err2, tr) \<Rightarrow>
             albums_loop l w safeNames (url\<lparr>Path := album_link el\<rparr>) els
               (Some (Errorf_w_s err err2)) tr)
      else albums_loop l w safeNames (url\<lparr>Path := album_link el\<rparr>) els err tr)"
  by (auto simp: Let_def album_link_def split: prod.splits outcome.splits)

declare albums_loop.simps(2) [simp del]

lemma albums_loop_attempts:
  "attempts l w safeNames (album_urls l url els) tr = (rs, tr') \<Longrightarrow> Panic \<notin> set rs
     \<Longrightarrow> albums_loop l w safeNames url els err tr = (Ok (chain err (failures rs)), tr')"
proof (induction els arbitrary: url err tr rs tr')
  case Nil
  then show ?case by (simp add: album_urls_def)
next
  case (Cons el els)
  define url' where "url' = url\<lparr>Path := album_link el\<rparr>"
  have same: "album_urls l url' els = album_urls l url els"
    by (simp add: album_urls_def url'_def)
  note step = albums_loop_step [of l w safeNames url el els err tr, folded url'_def]
  show ?case
  proof (cases "prefix ''/album'' (album_link el)")
    case False
    then have "album_urls l url (el # els) = album_urls l url' els"
      by (simp add: album_urls_def url'_def)
    with Cons.prems have "attempts l w safeNames (album_urls l url' els) tr = (rs, tr')"
      by simp
    from Cons.IH [OF this Cons.prems(2), of err] False show ?thesis
      by (simp only: step if_False)
  next
    case True
    then have urls: "album_urls l url (el # els) = url_String l url' # album_urls l url' els"
      by (simp add: album_urls_def url'_def)
    obtain r tr1 where d: "downloadAlbum l w safeNames (url_String l url') tr = (r, tr1)"
      by (cases "downloadAlbum l w safeNames (url_String l url') tr")
    obtain rs2 tr2 where a: "attempts l w safeNames (album_urls l url' els) tr1 = (rs2, tr2)"
      by (cases "attempts l w safeNames (album_urls l url' els) tr1")
    from Cons.prems d a urls have r: "r \<noteq> Panic" "rs = r # rs2" "tr' = tr2"
      by (cases r; auto)+
    with Cons.prems have np: "Panic \<notin> set rs2"
      by simp
    show ?thesis
    proof (cases r)
      case (Ok x)
      from Cons.IH [OF a np, of err] True d r Ok show ?thesis
        by (simp add: step)
    next
      case (Failed err2)
      from Cons.IH [OF a np, of "Some (Errorf_w_s err err2)"] True d r Failed show ?thesis
        by (simp add: step)
    next
      case Panic
      with r show ?thesis by simp
    qed
  qed
qed

lemma downloadAlbums_attempts:
  assumes "page = url_String l url"
    and "http_Get w tr page = None"
    and "html_Parse w (tr @ [HttpGet page]) page = Inr doc"
    and "attempts l w safeNames (album_urls l url (findElementsWithDataKey doc ''data-item-id''))
           (tr @ [HttpGet page, ParseBody page]) = (rs, tr')"
    and "Panic \<notin> set rs"
  shows "downloadAlbums l w safeNames url tr
           = ((case chain None (failures rs) of None \<Rightarrow> Ok () | Some err \<Rightarrow> Failed err),
              tr' @ [BodyClose page])"
  using albums_loop_attempts [OF assms(4,5), of None] assms(2,3)
  by (simp add: downloadAlbums_def downloadAlbums_body_def assms(1) [symmetric]
      get_and_parse_ok run_deferred_def returned_def Let_def split: option.splits)

text \<open>
  Claim C8. When the storefront page is fetched and parsed and no download panics,
  \<^verbatim>\<open>downloadAlbums\<close> hands every album URL of the page to \<^verbatim>\<open>downloadAlbum\<close>, also after
  a download failed: there is one result per URL, and every URL is fetched. What it
  returns chains the errors of all failed downloads, oldest innermost, and the innermost
  link, built at the first failure, wraps nil.
\<close>

theorem downloadAlbums_chains_all_errors:
  assumes "page = url_String l url"
    and "http_Get w tr page = None"
    and "html_Parse w (tr @ [HttpGet page]) page = Inr doc"
    and "urls = album_urls l url (findElementsWithDataKey doc ''data-item-id'')"
    and "attempts l w safeNames urls (tr @ [HttpGet page, ParseBody page]) = (rs, tr')"
    and "Panic \<notin> set rs"
  shows "downloadAlbums l w safeNames url tr
           = ((case chain None (failures rs) of None \<Rightarrow> Ok () | Some err \<Rightarrow> Failed err),
              tr' @ [BodyClose page])
         \<and> length rs = length urls
         \<and> (\<forall>u \<in> set urls. HttpGet u \<in> set tr')
         \<and> (\<forall>err errs. failures rs = err # errs \<longrightarrow>
               chain None (failures rs) = chain (Some (Errorf_w_s None err)) errs)"
proof (intro conjI)
  show "downloadAlbums l w safeNames url tr
          = ((case chain None (failures rs) of None \<Rightarrow> Ok () | Some err \<Rightarrow> Failed err),
             tr' @ [BodyClose page])"
    using assms(5) unfolding assms(4)
    by (rule downloadAlbums_attempts [OF assms(1-3) _ assms(6)])
  from attempts_complete [OF assms(5,6)]
  show "length rs = length urls" and "\<forall>u \<in> set urls. HttpGet u \<in> set tr'"
    by simp_all
  show "\<forall>err errs. failures rs = err # errs \<longrightarrow>
          chain None (failures rs) = chain (Some (Errorf_w_s None err)) errs"
    by simp
qed

section \<open>The claims at concrete inputs\<close>

lemma example_page_found:
  "http_Get (world_example pages_example) [] u = None"
  "html_Parse (world_example pages_example) ([] @ [HttpGet u]) u = Inr (pages_example u)"
  by (simp_all add: world_example_def)




theorem downloadAlbum_missing_tralbum_witness:
  "downloadAlbum lib_example (world_example pages_example) True ''http://x/album/none'' []
     = (Failed (ErrorsNew ''could not find album''),
        [HttpGet ''http://x/album/none'', ParseBody ''http://x/album/none'',
         BodyClose ''http://x/album/none''])
   \<and> main_loop lib_example (world_example pages_example) True
         [''http://x/album/none'', ''http://x/album/two''] []
       = main_loop lib_example (world_example pages_example) True [''http://x/album/two'']
           [HttpGet ''http://x/album/none'', ParseBody ''http://x/album/none'',
            BodyClose ''http://x/album/none'',
            Print (Failure (ErrorsNew ''could not find album''))]
   \<and> creates (snd (main_loop lib_example (world_example pages_example) True
                     [''http://x/album/none'', ''http://x/album/two''] []))
       = [''A/T (2020)/02 Two.mp3'', ''A/T (2020)/01 One.mp3'']"
proof -
  let ?w = "world_example pages_example"
  let ?u = "''http://x/album/none''"
  have page: "html_Parse ?w ([] @ [HttpGet ?u]) ?u = Inr empty_page"
    by (simp add: world_example_def pages_example_def)
  have none: "\<forall>n \<in> set (preorder empty_page). \<not> carries ''data-tralbum'' n"
    by (simp add: empty_page_def carries_def)
  have parsed: "url_Parse lib_example ?u = Inr \<lparr>Path = ''/album/none'', Rest = ''http://x''\<rparr>
                \<and> prefix ''/album'' (Path \<lparr>Path = ''/album/none'', Rest = ''http://x''\<rparr>)"
    by (simp add: lib_example_def)
  note t = downloadAlbum_missing_tralbum
             [OF example_page_found(1) page none, of lib_example True]
  from t have 1: "downloadAlbum lib_example ?w True ?u []
                    = (Failed (ErrorsNew ''could not find album''),
                       [HttpGet ?u, ParseBody ?u, BodyClose ?u])"
    by simp
  from t parsed
  have 2: "main_loop lib_example ?w True [?u, ''http://x/album/two''] []
             = main_loop lib_example ?w True [''http://x/album/two'']
                 [HttpGet ?u, ParseBody ?u, BodyClose ?u,
                  Print (Failure (ErrorsNew ''could not find album''))]"
    by (metis append_Nil)
  have 3: "creates (snd (main_loop lib_example ?w True [?u, ''http://x/album/two''] []))
             = [''A/T (2020)/02 Two.mp3'', ''A/T (2020)/01 One.mp3'']"
    by code_simp
  from 1 2 3 show ?thesis
    by (simp only: simp_thms)
qed

theorem downloadAlbums_chains_all_errors_witness:
  "fst (downloadAlbums lib_example (world_example pages_example) True store_url [])
     = Failed (Errorf_w_s None (ErrorsNew ''could not find album''))
   \<and> HttpGet ''http://x/album/none''
       \<in> set (snd (downloadAlbums lib_example (world_example pages_example) True store_url []))
   \<and> HttpGet ''http://x/album/two''
       \<in> set (snd (downloadAlbums lib_example (world_example pages_example) True store_url []))"
proof -
  let ?w = "world_example pages_example"
  let ?page = "''http://x/music''"
  let ?A = "attempts lib_example ?w True [''http://x/album/none'', ''http://x/album/two'']
              ([] @ [HttpGet ?page, ParseBody ?page])"
  have h1: "?page = url_String lib_example store_url"
    by code_simp
  have h3: "html_Parse ?w ([] @ [HttpGet ?page]) ?page = Inr store_page"
    by (simp add: world_example_def pages_example_def)
  have h4: "[''http://x/album/none'', ''http://x/album/two'']
              = album_urls lib_example store_url
                  (findElementsWithDataKey store_page ''data-item-id'')"
    by code_simp
  have h6: "Panic \<notin> set (fst ?A)"
    by code_simp
  have f: "failures (fst ?A) = [ErrorsNew ''could not find album'']"
    by code_simp
  note t = downloadAlbums_chains_all_errors
             [OF h1 example_page_found(1) h3 h4 prod.collapse [symmetric] h6]
  from t f have 1: "fst (downloadAlbums lib_example ?w True store_url [])
                      = Failed (Errorf_w_s None (ErrorsNew ''could not find album''))"
    by simp
  from t have "\<forall>u \<in> set [''http://x/album/none'', ''http://x/album/two''].
                 HttpGet u \<in> set (snd ?A)"
    by blast
  moreover from t have "snd (downloadAlbums lib_example ?w True store_url [])
                          = snd ?A @ [BodyClose ?page]"
    by simp
  ultimately have 2: "HttpGet ''http://x/album/none''
                        \<in> set (snd (downloadAlbums lib_example ?w True store_url []))"
    and 3: "HttpGet ''http://x/album/two''
              \<in> set (snd (downloadAlbums lib_example ?w True store_url []))"
    by simp_all
  from 1 2 3 show ?thesis
    by (simp only: simp_thms)
qed

text \<open>
  Claim C1 says that every type mismatch in the JSON text makes the decoder fail with an
  error that \<^verbatim>\<open>downloadAlbum\<close> wraps. A release date that is a one-digit number is a type
  mismatch; the decoder hands its one byte to the hook, whose slice expression panics, so
  that \<^verbatim>\<open>downloadAlbum\<close> panics and returns no error. (The file system is not touched.)
\<close>

theorem downloadAlbum_number_date_panics:
  "json_Unmarshal lib_example json_number_date = Panic
   \<and> downloadAlbum lib_example (world_example pages_example) True ''http://x/album/five'' []
       = (Panic,
          [HttpGet ''http://x/album/five'', ParseBody ''http://x/album/five'',
           BodyClose ''http://x/album/five''])"
  by code_simp

text \<open>
  Claim C9 says that every file opened by \<^verbatim>\<open>downloadAlbum\<close> is released on every exit
  path. On a full disk, the cover file of an album with art is created, the write fails,
  and the function returns the error without closing the file; the same happens to the
  first track file of an album without art. The response bodies, whose \<^verbatim>\<open>Close\<close> is
  deferred, are closed.
\<close>

theorem downloadAlbum_leaves_file_open:
  "downloadAlbum lib_example world_disk_full True ''http://x/album/art'' []
     = (Failed (Errorf_w ''could not write large album art file''
                  (LibError ''no space left on device'')),
        [HttpGet ''http://x/album/art'', ParseBody ''http://x/album/art'',
         Print (Downloading ''A'' ''T'' ''2020''),
         HttpGet ''https://f4.bcbits.com/img/a7_16.jpg'',
         ReadAll ''https://f4.bcbits.com/img/a7_16.jpg'',
         HttpGet ''https://f4.bcbits.com/img/a7_0.jpg'',
         ReadAll ''https://f4.bcbits.com/img/a7_0.jpg'',
         Stat ''A/T (2020)'', MkdirAll ''A/T (2020)'',
         Create ''A/T (2020)/cover.jpg'', Write ''A/T (2020)/cover.jpg'' ''jpeg'',
         BodyClose ''https://f4.bcbits.com/img/a7_0.jpg'',
         BodyClose ''https://f4.bcbits.com/img/a7_16.jpg'',
         BodyClose ''http://x/album/art''])
   \<and> downloadAlbum lib_example world_disk_full True ''http://x/album/two'' []
       = (Failed (Errorf_w ''could not write track file''
                    (LibError ''no space left on device'')),
          [HttpGet ''http://x/album/two'', ParseBody ''http://x/album/two'',
           Print (Downloading ''A'' ''T'' ''2020''),
           Stat ''A/T (2020)'', MkdirAll ''A/T (2020)'',
           Print (TrackStart 2 ''Two''), HttpGet ''http://x/2.mp3'',
           Create ''A/T (2020)/02 Two.mp3'',
           ReadFrom ''A/T (2020)/02 Two.mp3'' ''http://x/2.mp3'',
           BodyClose ''http://x/2.mp3'', BodyClose ''http://x/album/two''])"
  by code_simp

end
